theory Spec2Isabelle
  imports Complex_Main
begin

section \<open>Values: Python errors, floats and tensors\<close>

text \<open>
  The module \<^verbatim>\<open>aphrodite/modeling/layers/rotary_embedding.py\<close> builds the cosine/sine
  tables of the rotary positional embedding. The values of its tensors are embedded
  over the real numbers: every operation on them is taken at its exact mathematical
  value, so the rounding and the range of single and double precision are outside the
  model, and so is the memory a tensor needs. What is inside the model is everything
  else the code does: which exceptions Python and torch raise and in which order, the
  sizes \<^verbatim>\<open>torch.arange\<close> produces, broadcasting, and the places where exact arithmetic
  leaves the finite numbers (a division by zero, a negative number raised to a
  fractional power). Two places where the machine representation decides what the code
  does are modelled as the machine has them: the product
  \<^verbatim>\<open>max_position_embeddings * scaling_factor\<close>, whose rounding to a double decides the
  number of rows of a table, and the conversion of a Python \<^verbatim>\<open>int\<close> to a torch scalar,
  which raises for an \<^verbatim>\<open>int\<close> outside the 64-bit range.
\<close>

datatype py_error = ZeroDivisionError | ValueError | RuntimeError | OverflowError

type_synonym 'a result = "py_error + 'a"

definition and_then :: "'a result \<Rightarrow> ('a \<Rightarrow> 'b result) \<Rightarrow> 'b result" where
  "and_then m f = (case m of Inl e \<Rightarrow> Inl e | Inr x \<Rightarrow> f x)"

text \<open>
  An element of a tensor is \<open>Some x\<close> for the finite number \<open>x\<close> and \<open>None\<close> for a value
  that is not finite (an infinity or a NaN). No operation of this module maps a value
  that is not finite back to a finite one (nothing divides by an infinity, and
  \<^verbatim>\<open>torch.clamp\<close> is only applied to finite values), so \<open>None\<close> is absorbing.
\<close>

type_synonym fl = "real option"
type_synonym tensor1 = "fl list"
type_synonym tensor2 = "fl list list"

text \<open>
  A Python number is an \<^verbatim>\<open>int\<close> or a \<^verbatim>\<open>float\<close>. The attribute \<^verbatim>\<open>base\<close> is annotated \<^verbatim>\<open>int\<close>
  and reaches \<^verbatim>\<open>base ** tensor\<close> as it was given; the dynamic-NTK variant passes a
  \<^verbatim>\<open>float\<close> there. torch converts the left operand to a scalar: a \<^verbatim>\<open>float\<close> always
  converts, an \<^verbatim>\<open>int\<close> converts when it fits 64 bits (at least \<open>- 2 ^ 63\<close> and below
  \<open>2 ^ 64\<close>), and any other \<^verbatim>\<open>int\<close> raises OverflowError.
\<close>

datatype py_number = PyInt int | PyFloat real

fun py_value :: "py_number \<Rightarrow> real" where
  "py_value (PyInt n) = of_int n"
| "py_value (PyFloat x) = x"

fun torch_scalar :: "py_number \<Rightarrow> real result" where
  "torch_scalar (PyFloat x) = Inr x"
| "torch_scalar (PyInt n) =
     (if - (2 ^ 63) \<le> n \<and> n < 2 ^ 64 then Inr (of_int n) else Inl OverflowError)"

text \<open>
  Rounding to a double: a number other than zero is scaled so that its 53 significant
  bits are the integer part, rounded to the nearest integer with ties to the even one,
  and scaled back. (Overflow and subnormal numbers are outside the model.) Python
  computes \<^verbatim>\<open>n * x\<close> for an \<^verbatim>\<open>int\<close> \<open>n\<close> and a \<^verbatim>\<open>float\<close> \<open>x\<close> by converting \<open>n\<close> to a double
  and rounding the product to a double.
\<close>

definition round_half_even :: "real \<Rightarrow> int" where
  "round_half_even y =
     (let n = \<lfloor>y\<rfloor> in
      if y - of_int n < 1 / 2 then n
      else if 1 / 2 < y - of_int n then n + 1
      else if even n then n else n + 1)"

definition double_round :: "real \<Rightarrow> real" where
  "double_round x =
     (if x = 0 then 0
      else let e = \<lfloor>log 2 \<bar>x\<bar>\<rfloor>; ulp = 2 powr of_int (e - 52)
           in of_int (round_half_even (x / ulp)) * ulp)"

definition py_int_mul_float :: "int \<Rightarrow> real \<Rightarrow> real" where
  "py_int_mul_float n x = double_round (double_round (of_int n) * x)"

definition fl_add :: "fl \<Rightarrow> fl \<Rightarrow> fl" where
  "fl_add a b = (case a of None \<Rightarrow> None | Some x \<Rightarrow> (case b of None \<Rightarrow> None | Some y \<Rightarrow> Some (x + y)))"

definition fl_sub :: "fl \<Rightarrow> fl \<Rightarrow> fl" where
  "fl_sub a b = (case a of None \<Rightarrow> None | Some x \<Rightarrow> (case b of None \<Rightarrow> None | Some y \<Rightarrow> Some (x - y)))"

definition fl_mul :: "fl \<Rightarrow> fl \<Rightarrow> fl" where
  "fl_mul a b = (case a of None \<Rightarrow> None | Some x \<Rightarrow> (case b of None \<Rightarrow> None | Some y \<Rightarrow> Some (x * y)))"

definition fl_div :: "fl \<Rightarrow> fl \<Rightarrow> fl" where
  \<comment> \<open>Tensor division does not raise: \<open>x / 0\<close> is an infinity or a NaN.\<close>
  "fl_div a b = (case a of None \<Rightarrow> None | Some x \<Rightarrow>
     (case b of None \<Rightarrow> None | Some y \<Rightarrow> if y = 0 then None else Some (x / y)))"

definition fl_pow :: "real \<Rightarrow> fl \<Rightarrow> fl" where
  \<comment> \<open>\<^verbatim>\<open>b ** x\<close> for a Python scalar \<open>b\<close> and a tensor element \<open>x\<close>: \<open>0 ** 0 = 1\<close>,
      \<open>0 ** x\<close> is an infinity for negative \<open>x\<close>, and a negative \<open>b\<close> has a finite power
      only at an integral exponent.\<close>
  "fl_pow b e = (case e of
       None \<Rightarrow> (if b = 1 then Some 1 else None)
     | Some x \<Rightarrow>
        (if 0 < b then Some (b powr x)
         else if b = 0 then (if x = 0 then Some 1 else if 0 < x then Some 0 else None)
         else if of_int \<lfloor>x\<rfloor> = x then Some (power_int b \<lfloor>x\<rfloor>) else None))"

definition fl_cos :: "fl \<Rightarrow> fl" where
  "fl_cos a = map_option cos a"

definition fl_sin :: "fl \<Rightarrow> fl" where
  "fl_sin a = map_option sin a"

definition torch_arange :: "real \<Rightarrow> real \<Rightarrow> real \<Rightarrow> tensor1 result" where
  \<comment> \<open>\<^verbatim>\<open>torch.arange(start, stop, step, dtype=torch.float)\<close>: \<open>\<lceil>(stop - start) / step\<rceil>\<close>
      elements; torch raises when the bounds disagree with the sign of the step.\<close>
  "torch_arange start stop step =
     (if step = 0 then Inl RuntimeError
      else if (0 < step \<and> stop < start) \<or> (step < 0 \<and> start < stop) then Inl RuntimeError
      else Inr (map (\<lambda>k. Some (start + real k * step)) [0..<nat \<lceil>(stop - start) / step\<rceil>]))"

definition tensor_div_scalar :: "tensor1 \<Rightarrow> real \<Rightarrow> tensor1" where
  "tensor_div_scalar t s = map (\<lambda>x. fl_div x (Some s)) t"

definition scalar_pow_tensor :: "real \<Rightarrow> tensor1 \<Rightarrow> tensor1" where
  "scalar_pow_tensor b t = map (fl_pow b) t"

definition scalar_div_tensor :: "real \<Rightarrow> tensor1 \<Rightarrow> tensor1" where
  "scalar_div_tensor a t = map (\<lambda>x. fl_div (Some a) x) t"

definition scalar_mul_tensor :: "real \<Rightarrow> tensor1 \<Rightarrow> tensor1" where
  "scalar_mul_tensor a t = map (\<lambda>x. fl_mul (Some a) x) t"

definition scalar_sub_tensor :: "real \<Rightarrow> tensor1 \<Rightarrow> tensor1" where
  "scalar_sub_tensor a t = map (\<lambda>x. fl_sub (Some a) x) t"

definition tensor_sub_scalar :: "tensor1 \<Rightarrow> real \<Rightarrow> tensor1" where
  "tensor_sub_scalar t s = map (\<lambda>x. fl_sub x (Some s)) t"

definition tensor_mul_scalar :: "tensor1 \<Rightarrow> real \<Rightarrow> tensor1" where
  "tensor_mul_scalar t s = map (\<lambda>x. fl_mul x (Some s)) t"

definition broadcast2 :: "(fl \<Rightarrow> fl \<Rightarrow> fl) \<Rightarrow> tensor1 \<Rightarrow> tensor1 \<Rightarrow> tensor1 result" where
  \<comment> \<open>An elementwise operation on two 1-D tensors: equal sizes, or one of them of size
      one, which is repeated; any other pair of sizes is a RuntimeError.\<close>
  "broadcast2 f a b =
     (if length a = length b then Inr (map2 f a b)
      else if length a = 1 then Inr (map (f (hd a)) b)
      else if length b = 1 then Inr (map (\<lambda>x. f x (hd b)) a)
      else Inl RuntimeError)"

definition torch_clamp :: "tensor1 \<Rightarrow> real \<Rightarrow> real \<Rightarrow> tensor1" where
  "torch_clamp t lo hi = map (map_option (\<lambda>x. min (max x lo) hi)) t"

definition torch_einsum_outer :: "tensor1 \<Rightarrow> tensor1 \<Rightarrow> tensor2" where
  \<comment> \<open>\<^verbatim>\<open>torch.einsum("i,j -> ij", t, inv_freq)\<close>\<close>
  "torch_einsum_outer t f = map (\<lambda>a. map (\<lambda>b. fl_mul a b) f) t"

definition tensor2_cos :: "tensor2 \<Rightarrow> tensor2" where
  "tensor2_cos m = map (map fl_cos) m"

definition tensor2_sin :: "tensor2 \<Rightarrow> tensor2" where
  "tensor2_sin m = map (map fl_sin) m"

definition tensor2_mul_scalar :: "tensor2 \<Rightarrow> real \<Rightarrow> tensor2" where
  "tensor2_mul_scalar m s = map (\<lambda>row. tensor_mul_scalar row s) m"

definition torch_cat_last :: "tensor2 \<Rightarrow> tensor2 \<Rightarrow> tensor2" where
  \<comment> \<open>\<^verbatim>\<open>torch.cat((a, b), dim=-1)\<close>; both operands come from the same \<^verbatim>\<open>freqs\<close>, so
      they have the same number of rows.\<close>
  "torch_cat_last a b = map2 (@) a b"

section \<open>The base variant\<close>

text \<open>
  The attributes an instance holds when \<^verbatim>\<open>_compute_cos_sin_cache\<close> runs. The subclasses
  extend the record with the attributes they set before calling the constructor of the
  base class.
\<close>

record rope_attrs =
  head_size :: int
  rotary_dim :: int
  max_position_embeddings :: int
  base :: py_number
  is_neox_style :: bool

record 'a module =
  attrs :: 'a
  cos_sin_cache :: tensor2

definition compute_inv_freq :: "'a rope_attrs_scheme \<Rightarrow> py_number \<Rightarrow> tensor1 result" where
  \<comment> \<open>\<^verbatim>\<open>RotaryEmbedding._compute_inv_freq(self, base)\<close>: the exponent tensor is evaluated
      before \<^verbatim>\<open>**\<close> converts \<^verbatim>\<open>base\<close>.\<close>
  "compute_inv_freq self b =
     and_then (torch_arange 0 (of_int (rotary_dim self)) 2) (\<lambda>r.
     and_then (torch_scalar b) (\<lambda>x.
       Inr (scalar_div_tensor 1
              (scalar_pow_tensor x (tensor_div_scalar r (of_int (rotary_dim self)))))))"

definition compute_cos_sin_cache :: "'a rope_attrs_scheme \<Rightarrow> tensor2 result" where
  \<comment> \<open>\<^verbatim>\<open>RotaryEmbedding._compute_cos_sin_cache(self)\<close>\<close>
  "compute_cos_sin_cache self =
     and_then (compute_inv_freq self (base self)) (\<lambda>inv_freq.
     and_then (torch_arange 0 (of_int (max_position_embeddings self)) 1) (\<lambda>t.
       let freqs = torch_einsum_outer t inv_freq;
           cos_t = tensor2_cos freqs;
           sin_t = tensor2_sin freqs
       in Inr (torch_cat_last cos_t sin_t)))"

definition RotaryEmbedding_init ::
  "int \<Rightarrow> int \<Rightarrow> int \<Rightarrow> py_number \<Rightarrow> bool \<Rightarrow> rope_attrs module result" where
  \<comment> \<open>\<^verbatim>\<open>RotaryEmbedding.__init__\<close>: no parameter is validated. The conversion of the
      cache to the default dtype is a rounding, the identity here.\<close>
  "RotaryEmbedding_init hs rd mpe b neox =
     (let self = \<lparr>head_size = hs, rotary_dim = rd, max_position_embeddings = mpe, base = b,
                  is_neox_style = neox\<rparr>
      in and_then (compute_cos_sin_cache self) (\<lambda>cache.
           Inr \<lparr>attrs = self, cos_sin_cache = cache\<rparr>))"

section \<open>Linear scaling\<close>

record scaled_attrs = rope_attrs +
  scaling_factor :: real

definition Linear_compute_cos_sin_cache :: "'a scaled_attrs_scheme \<Rightarrow> tensor2 result" where
  \<comment> \<open>\<^verbatim>\<open>LinearScalingRotaryEmbedding._compute_cos_sin_cache(self)\<close>\<close>
  "Linear_compute_cos_sin_cache self =
     and_then (compute_inv_freq self (base self)) (\<lambda>inv_freq.
       let max_len = py_int_mul_float (max_position_embeddings self) (scaling_factor self) in
       and_then (torch_arange 0 max_len 1) (\<lambda>t0.
         let t = tensor_div_scalar t0 (scaling_factor self);
             freqs = torch_einsum_outer t inv_freq;
             cos_t = tensor2_cos freqs;
             sin_t = tensor2_sin freqs
         in Inr (torch_cat_last cos_t sin_t)))"

definition Linear_init ::
  "int \<Rightarrow> int \<Rightarrow> int \<Rightarrow> py_number \<Rightarrow> bool \<Rightarrow> real \<Rightarrow> scaled_attrs module result" where
  "Linear_init hs rd mpe b neox sf =
     (let self = \<lparr>head_size = hs, rotary_dim = rd, max_position_embeddings = mpe, base = b,
                  is_neox_style = neox, scaling_factor = sf\<rparr>
      in and_then (Linear_compute_cos_sin_cache self) (\<lambda>cache.
           Inr \<lparr>attrs = self, cos_sin_cache = cache\<rparr>))"

section \<open>Dynamic NTK scaling\<close>

definition ntk_base :: "'a scaled_attrs_scheme \<Rightarrow> real result" where
  \<comment> \<open>The first two statements of
      \<^verbatim>\<open>DynamicNTKScalingRotaryEmbedding._compute_cos_sin_cache\<close>: \<^verbatim>\<open>max_len\<close> and the
      modified \<^verbatim>\<open>base\<close>, a \<^verbatim>\<open>float\<close>. Both divisions are Python divisions and raise on a
      zero divisor. The number raised to the power is positive whenever the first
      division succeeds (lemma \<open>ntk_operand_positive\<close>), where Python's float power is
      \<open>powr\<close>.\<close>
  "ntk_base self =
     (let max_len = py_int_mul_float (max_position_embeddings self) (scaling_factor self) in
      if max_position_embeddings self = 0 then Inl ZeroDivisionError
      else if rotary_dim self - 2 = 0 then Inl ZeroDivisionError
      else Inr (py_value (base self) *
                ((scaling_factor self * max_len / of_int (max_position_embeddings self))
                   - (scaling_factor self - 1))
                powr (of_int (rotary_dim self) / of_int (rotary_dim self - 2))))"

definition DynamicNTK_compute_cos_sin_cache :: "'a scaled_attrs_scheme \<Rightarrow> tensor2 result" where
  \<comment> \<open>\<^verbatim>\<open>DynamicNTKScalingRotaryEmbedding._compute_cos_sin_cache(self)\<close>\<close>
  "DynamicNTK_compute_cos_sin_cache self =
     (let max_len = py_int_mul_float (max_position_embeddings self) (scaling_factor self) in
      and_then (ntk_base self) (\<lambda>b.
      and_then (compute_inv_freq self (PyFloat b)) (\<lambda>inv_freq.
      and_then (torch_arange 0 max_len 1) (\<lambda>t.
        let freqs = torch_einsum_outer t inv_freq;
            cos_t = tensor2_cos freqs;
            sin_t = tensor2_sin freqs
        in Inr (torch_cat_last cos_t sin_t)))))"

definition DynamicNTK_init ::
  "int \<Rightarrow> int \<Rightarrow> int \<Rightarrow> py_number \<Rightarrow> bool \<Rightarrow> real \<Rightarrow> scaled_attrs module result" where
  "DynamicNTK_init hs rd mpe b neox sf =
     (let self = \<lparr>head_size = hs, rotary_dim = rd, max_position_embeddings = mpe, base = b,
                  is_neox_style = neox, scaling_factor = sf\<rparr>
      in and_then (DynamicNTK_compute_cos_sin_cache self) (\<lambda>cache.
           Inr \<lparr>attrs = self, cos_sin_cache = cache\<rparr>))"

section \<open>YaRN scaling\<close>

definition yarn_find_correction_dim :: "real \<Rightarrow> int \<Rightarrow> real \<Rightarrow> int \<Rightarrow> real result" where
  \<comment> \<open>Python evaluates the numerator first: the division inside the logarithm, that
      logarithm, then \<^verbatim>\<open>math.log(base)\<close>, then the outer division. \<^verbatim>\<open>math.log\<close> raises
      ValueError outside the positive numbers, a float division by zero raises
      ZeroDivisionError.\<close>
  "yarn_find_correction_dim num_rotations dim' b mpe =
     (if num_rotations * 2 * pi = 0 then Inl ZeroDivisionError
      else if of_int mpe / (num_rotations * 2 * pi) \<le> 0 then Inl ValueError
      else if b \<le> 0 then Inl ValueError
      else if 2 * ln b = 0 then Inl ZeroDivisionError
      else Inr ((of_int dim' * ln (of_int mpe / (num_rotations * 2 * pi))) / (2 * ln b)))"

definition yarn_find_correction_range ::
  "real \<Rightarrow> real \<Rightarrow> int \<Rightarrow> real \<Rightarrow> int \<Rightarrow> (int \<times> int) result" where
  "yarn_find_correction_range low_rot high_rot dim' b mpe =
     and_then (yarn_find_correction_dim low_rot dim' b mpe) (\<lambda>x.
     and_then (yarn_find_correction_dim high_rot dim' b mpe) (\<lambda>y.
       Inr (max \<lfloor>x\<rfloor> 0, min \<lceil>y\<rceil> (dim' - 1))))"

definition yarn_linear_ramp_mask :: "real \<Rightarrow> real \<Rightarrow> int \<Rightarrow> tensor1 result" where
  "yarn_linear_ramp_mask low high dim' =
     (let high' = (if low = high then high + 0.001 else high) in
      and_then (torch_arange 0 (of_int dim') 1) (\<lambda>r.
        let linear_func = tensor_div_scalar (tensor_sub_scalar r low) (high' - low);
            ramp_func = torch_clamp linear_func 0 1
        in Inr ramp_func))"

definition yarn_get_mscale :: "real \<Rightarrow> real" where
  "yarn_get_mscale scale = (if scale \<le> 1 then 1.0 else 0.1 * ln scale + 1.0)"

record yarn_attrs = scaled_attrs +
  extrapolation_factor :: real
  attn_factor :: real
  beta_fast :: real
  beta_slow :: real
  mscale :: real

definition YaRN_correction_range :: "'a yarn_attrs_scheme \<Rightarrow> (int \<times> int) result" where
  \<comment> \<open>The call in \<^verbatim>\<open>YaRNScalingRotaryEmbedding._compute_inv_freq\<close>; \<^verbatim>\<open>math.log\<close> takes
      an \<^verbatim>\<open>int\<close> of any size.\<close>
  "YaRN_correction_range self =
     yarn_find_correction_range (beta_fast self) (beta_slow self) (rotary_dim self)
       (py_value (base self)) (max_position_embeddings self)"

definition YaRN_compute_inv_freq :: "'a yarn_attrs_scheme \<Rightarrow> real \<Rightarrow> tensor1 result" where
  \<comment> \<open>\<^verbatim>\<open>YaRNScalingRotaryEmbedding._compute_inv_freq(self, scaling_factor)\<close>; the mask
      has \<^verbatim>\<open>rotary_dim // 2\<close> elements, Python's floor division.\<close>
  "YaRN_compute_inv_freq self sf =
     and_then (torch_arange 0 (of_int (rotary_dim self)) 2) (\<lambda>r.
     and_then (torch_scalar (base self)) (\<lambda>b.
       let pos_freqs = scalar_pow_tensor b
                         (tensor_div_scalar r (of_int (rotary_dim self)));
           inv_freq_extrapolation = scalar_div_tensor 1.0 pos_freqs;
           inv_freq_interpolation = scalar_div_tensor 1.0 (scalar_mul_tensor sf pos_freqs)
       in
       and_then (YaRN_correction_range self) (\<lambda>(low, high).
       and_then (yarn_linear_ramp_mask (of_int low) (of_int high) (rotary_dim self div 2)) (\<lambda>ramp.
         let inv_freq_mask = tensor_mul_scalar (scalar_sub_tensor 1 ramp)
                               (extrapolation_factor self)
         in
         and_then (broadcast2 fl_mul inv_freq_interpolation (scalar_sub_tensor 1 inv_freq_mask)) (\<lambda>x.
         and_then (broadcast2 fl_mul inv_freq_extrapolation inv_freq_mask) (\<lambda>y.
           broadcast2 fl_add x y))))))"

definition YaRN_compute_cos_sin_cache :: "'a yarn_attrs_scheme \<Rightarrow> tensor2 result" where
  \<comment> \<open>\<^verbatim>\<open>YaRNScalingRotaryEmbedding._compute_cos_sin_cache(self)\<close>\<close>
  "YaRN_compute_cos_sin_cache self =
     and_then (YaRN_compute_inv_freq self (scaling_factor self)) (\<lambda>inv_freq.
     and_then (torch_arange 0
                 (py_int_mul_float (max_position_embeddings self) (scaling_factor self)) 1) (\<lambda>t.
       let freqs = torch_einsum_outer t inv_freq;
           cos_t = tensor2_mul_scalar (tensor2_cos freqs) (mscale self);
           sin_t = tensor2_mul_scalar (tensor2_sin freqs) (mscale self)
       in Inr (torch_cat_last cos_t sin_t)))"

definition YaRN_init ::
  "int \<Rightarrow> int \<Rightarrow> int \<Rightarrow> py_number \<Rightarrow> bool \<Rightarrow> real \<Rightarrow> real \<Rightarrow> real \<Rightarrow> real \<Rightarrow> real
     \<Rightarrow> yarn_attrs module result" where
  \<comment> \<open>\<^verbatim>\<open>YaRNScalingRotaryEmbedding.__init__\<close>, the four keyword arguments last;
      \<^verbatim>\<open>mscale\<close> is set before the constructor of the base class builds the cache.\<close>
  "YaRN_init hs rd mpe b neox sf ef af bf bs =
     (let self = \<lparr>head_size = hs, rotary_dim = rd, max_position_embeddings = mpe, base = b,
                  is_neox_style = neox, scaling_factor = sf, extrapolation_factor = ef,
                  attn_factor = af, beta_fast = bf, beta_slow = bs,
                  mscale = yarn_get_mscale sf * af\<rparr>
      in and_then (YaRN_compute_cos_sin_cache self) (\<lambda>cache.
           Inr \<lparr>attrs = self, cos_sin_cache = cache\<rparr>))"

section \<open>Auxiliary definitions\<close>

definition positions :: "nat \<Rightarrow> tensor1" where
  \<comment> \<open>The positions \<open>0, 1, \<dots>, n - 1\<close>\<close>
  "positions n = map (\<lambda>p. Some (real p)) [0..<n]"

text \<open>
  The table that the last statements of every \<^verbatim>\<open>_compute_cos_sin_cache\<close> assemble from
  the positions \<open>t\<close> and the inverse frequencies \<open>f\<close>; YaRN multiplies both halves by
  \<^verbatim>\<open>mscale\<close>.
\<close>

definition cos_sin_table :: "tensor1 \<Rightarrow> tensor1 \<Rightarrow> tensor2" where
  "cos_sin_table t f =
     torch_cat_last (tensor2_cos (torch_einsum_outer t f)) (tensor2_sin (torch_einsum_outer t f))"

definition scaled_cos_sin_table :: "tensor1 \<Rightarrow> tensor1 \<Rightarrow> real \<Rightarrow> tensor2" where
  "scaled_cos_sin_table t f s =
     torch_cat_last (tensor2_mul_scalar (tensor2_cos (torch_einsum_outer t f)) s)
                    (tensor2_mul_scalar (tensor2_sin (torch_einsum_outer t f)) s)"

section \<open>The formulas of the specification\<close>

text \<open>
  A table \<open>c\<close> has the cosine/sine layout for the positions \<open>t\<close> and the inverse
  frequencies \<open>f\<close> when it has one row for each position, each row is twice as long as
  \<open>f\<close>, its first half holds \<open>cos (t[p] * f[j])\<close> and its second half \<open>sin (t[p] * f[j])\<close>
  for the same angle. In the scaled layout every entry is multiplied by the factor \<open>s\<close>.
\<close>

definition cos_sin_layout :: "tensor2 \<Rightarrow> tensor1 \<Rightarrow> tensor1 \<Rightarrow> bool" where
  "cos_sin_layout c t f \<longleftrightarrow>
     length c = length t \<and>
     (\<forall>p < length t. length (c ! p) = 2 * length f \<and>
        (\<forall>j < length f.
            c ! p ! j = fl_cos (fl_mul (t ! p) (f ! j)) \<and>
            c ! p ! (length f + j) = fl_sin (fl_mul (t ! p) (f ! j))))"

definition scaled_cos_sin_layout :: "tensor2 \<Rightarrow> tensor1 \<Rightarrow> tensor1 \<Rightarrow> real \<Rightarrow> bool" where
  "scaled_cos_sin_layout c t f s \<longleftrightarrow>
     length c = length t \<and>
     (\<forall>p < length t. length (c ! p) = 2 * length f \<and>
        (\<forall>j < length f.
            c ! p ! j = fl_mul (fl_cos (fl_mul (t ! p) (f ! j))) (Some s) \<and>
            c ! p ! (length f + j) = fl_mul (fl_sin (fl_mul (t ! p) (f ! j))) (Some s)))"

definition has_shape :: "tensor2 \<Rightarrow> nat \<Rightarrow> nat \<Rightarrow> bool" where
  "has_shape c rows cols \<longleftrightarrow> length c = rows \<and> (\<forall>row \<in> set c. length row = cols)"

text \<open>
  The effective maximum \<open>max_position_embeddings * scaling_factor\<close>, the product as
  Python computes it, and the modified base of dynamic NTK scaling, as the
  specification writes it.
\<close>

definition effective_max :: "'a scaled_attrs_scheme \<Rightarrow> real" where
  "effective_max self = py_int_mul_float (max_position_embeddings self) (scaling_factor self)"

definition modified_base :: "'a scaled_attrs_scheme \<Rightarrow> real" where
  "modified_base self =
     py_value (base self) *
       ((scaling_factor self * effective_max self / real_of_int (max_position_embeddings self))
          - (scaling_factor self - 1))
       powr (real_of_int (rotary_dim self) / real_of_int (rotary_dim self - 2))"

text \<open>
  A base that torch converts whatever the version: a \<^verbatim>\<open>float\<close>, or an \<^verbatim>\<open>int\<close> that fits a
  signed 64-bit integer.
\<close>

fun float_or_int64 :: "py_number \<Rightarrow> bool" where
  "float_or_int64 (PyFloat x) = True"
| "float_or_int64 (PyInt n) = (- (2 ^ 63) \<le> n \<and> n < 2 ^ 63)"


definition ramp_denominator :: "int \<Rightarrow> int \<Rightarrow> real" where
  "ramp_denominator low high =
     (if low = high then 0.001 else real_of_int high - real_of_int low)"

definition ramp :: "int \<Rightarrow> int \<Rightarrow> nat \<Rightarrow> real" where
  "ramp low high j = min (max ((real j - real_of_int low) / ramp_denominator low high) 0) 1"

definition inv_freq_mask :: "int \<Rightarrow> int \<Rightarrow> real \<Rightarrow> nat \<Rightarrow> real" where
  "inv_freq_mask low high ef j = (1 - ramp low high j) * ef"

definition pos_freq :: "'a rope_attrs_scheme \<Rightarrow> nat \<Rightarrow> real" where
  "pos_freq self j = py_value (base self) powr (2 * real j / real_of_int (rotary_dim self))"

definition blended_inv_freq ::
  "'a yarn_attrs_scheme \<Rightarrow> real \<Rightarrow> int \<Rightarrow> int \<Rightarrow> nat \<Rightarrow> real" where
  "blended_inv_freq self sf low high j =
     (let inv_freq_extrap = 1 / pos_freq self j;
          inv_freq_interp = 1 / (sf * pos_freq self j);
          mask = inv_freq_mask low high (extrapolation_factor self) j
      in inv_freq_interp * (1 - mask) + inv_freq_extrap * mask)"

section \<open>Facts about the tensor operations\<close>

lemma and_then_simps:
  "and_then (Inl e) f = Inl e"
  "and_then (Inr x) f = f x"
  by (simp_all add: and_then_def)

lemma and_then_eq_Inr:
  "and_then m f = Inr y \<longleftrightarrow> (\<exists>x. m = Inr x \<and> f x = Inr y)"
  by (cases m) (simp_all add: and_then_def)

lemma ceiling_half_even:
  assumes "even (n::int)"
  shows "\<lceil>real_of_int n / 2\<rceil> = n div 2"
proof -
  from assms obtain k where "n = 2 * k" by (auto elim: evenE)
  then show ?thesis by simp
qed

lemma ceiling_half_odd:
  assumes "odd (n::int)"
  shows "\<lceil>real_of_int n / 2\<rceil> = (n + 1) div 2"
proof -
  from assms obtain k where n: "n = 2 * k + 1" by (auto elim: oddE)
  have "real_of_int n / 2 = real_of_int k + 1 / 2" by (simp add: n)
  then have "\<lceil>real_of_int n / 2\<rceil> = k + 1" by (simp add: ceiling_eq_iff)
  then show ?thesis by (simp add: n)
qed

lemma arange_step2:
  assumes "0 \<le> (n::int)"
  shows "torch_arange 0 (of_int n) 2
       = Inr (map (\<lambda>k. Some (2 * real k)) [0..<nat \<lceil>real_of_int n / 2\<rceil>])"
  using assms by (simp add: torch_arange_def mult.commute)

lemma arange_step1:
  assumes "0 \<le> x"
  shows "torch_arange 0 x 1 = Inr (positions (nat \<lceil>x\<rceil>))"
  using assms by (simp add: torch_arange_def positions_def)

lemma arange_negative:
  assumes "x < 0" and "0 < s"
  shows "torch_arange 0 x s = Inl RuntimeError"
  using assms by (simp add: torch_arange_def)

lemma arange_eq_Inr:
  "torch_arange 0 x 1 = Inr t \<longleftrightarrow> 0 \<le> x \<and> t = positions (nat \<lceil>x\<rceil>)"
  by (auto simp: torch_arange_def positions_def)

lemma positions_simps:
  "length (positions n) = n"
  "p < n \<Longrightarrow> positions n ! p = Some (real p)"
  by (simp_all add: positions_def)

lemma map2_map_same:
  "map2 f (map g xs) (map h xs) = map (\<lambda>x. f (g x) (h x)) xs"
  by (induction xs) simp_all

lemma table_length: "length (cos_sin_table t f) = length t"
  by (simp add: cos_sin_table_def torch_cat_last_def tensor2_cos_def tensor2_sin_def
      torch_einsum_outer_def)

lemma table_row:
  assumes "p < length t"
  shows "cos_sin_table t f ! p
       = map (\<lambda>x. fl_cos (fl_mul (t ! p) x)) f @ map (\<lambda>x. fl_sin (fl_mul (t ! p) x)) f"
  using assms
  by (simp add: cos_sin_table_def torch_cat_last_def tensor2_cos_def tensor2_sin_def
      torch_einsum_outer_def comp_def)

lemma table_layout: "cos_sin_layout (cos_sin_table t f) t f"
  by (simp add: cos_sin_layout_def table_length table_row nth_append)

lemma scaled_table_layout: "scaled_cos_sin_layout (scaled_cos_sin_table t f s) t f s"
  by (simp add: scaled_cos_sin_layout_def scaled_cos_sin_table_def torch_cat_last_def
      tensor2_cos_def tensor2_sin_def torch_einsum_outer_def tensor2_mul_scalar_def
      tensor_mul_scalar_def nth_append)

lemma layout_shape:
  assumes "cos_sin_layout c t f"
  shows "has_shape c (length t) (2 * length f)"
  using assms by (auto simp: cos_sin_layout_def has_shape_def in_set_conv_nth)

lemma scaled_layout_shape:
  assumes "scaled_cos_sin_layout c t f s"
  shows "has_shape c (length t) (2 * length f)"
  using assms by (auto simp: scaled_cos_sin_layout_def has_shape_def in_set_conv_nth)

section \<open>Facts about rounding to a double\<close>

lemma round_half_even_of_int: "round_half_even (of_int n) = n"
  by (simp add: round_half_even_def)

lemma round_half_even_error: "\<bar>of_int (round_half_even y) - y\<bar> \<le> 1 / 2"
proof -
  have "of_int \<lfloor>y\<rfloor> \<le> y" and "y < of_int \<lfloor>y\<rfloor> + 1" by linarith+
  then show ?thesis by (auto simp: round_half_even_def Let_def)
qed

lemma two_powr_floor_log:
  assumes "x \<noteq> 0"
  shows "2 powr of_int \<lfloor>log 2 \<bar>x\<bar>\<rfloor> \<le> \<bar>x\<bar>"
proof -
  have "2 powr of_int \<lfloor>log 2 \<bar>x\<bar>\<rfloor> \<le> 2 powr (log 2 \<bar>x\<bar>)"
    by (rule powr_mono) simp_all
  also have "\<dots> = \<bar>x\<bar>" using assms by simp
  finally show ?thesis .
qed

lemma double_round_error:
  "\<bar>double_round x - x\<bar> \<le> \<bar>x\<bar> / 16"
proof (cases "x = 0")
  case True
  then show ?thesis by (simp add: double_round_def)
next
  case False
  define e where "e = \<lfloor>log 2 \<bar>x\<bar>\<rfloor>"
  define u :: real where "u = 2 powr of_int (e - 52)"
  have u: "0 < u" by (simp add: u_def)
  have dr: "double_round x = of_int (round_half_even (x / u)) * u"
    using False by (simp add: double_round_def e_def u_def Let_def)
  have "of_int (round_half_even (x / u)) * u - x
      = (of_int (round_half_even (x / u)) - x / u) * u"
    using u by (simp add: field_simps)
  then have "\<bar>of_int (round_half_even (x / u)) * u - x\<bar>
      = \<bar>of_int (round_half_even (x / u)) - x / u\<bar> * u"
    using u by (simp add: abs_mult)
  also have "\<dots> \<le> 1 / 2 * u"
    using round_half_even_error [of "x / u"] u by (intro mult_right_mono) simp_all
  finally have 1: "\<bar>double_round x - x\<bar> \<le> u / 2" by (simp add: dr)
  have "u * 2 powr 52 = 2 powr (of_int (e - 52) + 52)"
    unfolding u_def by (simp only: powr_add)
  also have "of_int (e - 52) + (52::real) = of_int e" by simp
  finally have "2 powr of_int e = u * 2 powr 52" by simp
  moreover have "2 powr of_int e \<le> \<bar>x\<bar>"
    unfolding e_def by (rule two_powr_floor_log [OF False])
  ultimately have "u * 2 powr 52 \<le> \<bar>x\<bar>" by simp
  moreover have "u * 8 \<le> u * 2 powr 52"
    using u by (intro mult_left_mono) simp_all
  ultimately have "u * 8 \<le> \<bar>x\<bar>" by linarith
  with 1 show ?thesis by simp
qed


lemma double_round_representable:
  assumes "\<bar>m\<bar> < 2 ^ 53"
  shows "double_round (of_int m * 2 powr of_int k) = of_int m * 2 powr of_int k"
proof (cases "m = 0")
  case True
  then show ?thesis by (simp add: double_round_def)
next
  case False
  define x :: real where "x = of_int m * 2 powr of_int k"
  define e where "e = \<lfloor>log 2 \<bar>x\<bar>\<rfloor>"
  define d where "d = k + 52 - e"
  have x0: "x \<noteq> 0" using False by (simp add: x_def)
  have "\<bar>x\<bar> = \<bar>of_int m\<bar> * 2 powr of_int k" by (simp add: x_def abs_mult)
  also have "\<dots> < 2 ^ 53 * 2 powr of_int k"
  proof (rule mult_strict_right_mono)
    have "\<bar>real_of_int m\<bar> = real_of_int \<bar>m\<bar>" by simp
    also have "\<dots> < real_of_int (2 ^ 53)" using assms by (simp only: of_int_less_iff)
    finally show "\<bar>real_of_int m\<bar> < 2 ^ 53" by simp
  qed simp
  also have "\<dots> = 2 powr 53 * 2 powr of_int k" by simp
  also have "\<dots> = 2 powr (53 + of_int k)" by (simp only: powr_add)
  also have "53 + real_of_int k = of_int (k + 53)" by simp
  finally have "log 2 \<bar>x\<bar> < of_int (k + 53)"
    using x0 by (subst log_less_iff) simp_all
  then have "e < k + 53" unfolding e_def by (simp only: floor_less_iff)
  then have d: "0 \<le> d" by (simp add: d_def)
  have "x / 2 powr of_int (e - 52) = of_int m * (2 powr of_int k / 2 powr of_int (e - 52))"
    by (simp add: x_def)
  also have "2 powr of_int k / 2 powr of_int (e - 52) = (2::real) powr (of_int k - of_int (e - 52))"
    by (simp only: powr_diff)
  also have "of_int k - of_int (e - 52) = real_of_int d" by (simp add: d_def)
  also have "(2::real) powr of_int d = 2 ^ nat d" using d by (simp add: powr_int)
  finally have sc: "x / 2 powr of_int (e - 52) = of_int (m * 2 ^ nat d)" by simp
  have "double_round x = of_int (round_half_even (x / 2 powr of_int (e - 52))) * 2 powr of_int (e - 52)"
    using x0 by (simp add: double_round_def e_def Let_def)
  also have "\<dots> = (x / 2 powr of_int (e - 52)) * 2 powr of_int (e - 52)"
    by (simp only: sc round_half_even_of_int)
  also have "\<dots> = x" by simp
  finally show ?thesis by (simp add: x_def)
qed

lemma double_round_of_int:
  assumes "\<bar>n\<bar> < 2 ^ 53"
  shows "double_round (of_int n) = of_int n"
  using double_round_representable [OF assms, of 0] by simp

lemma double_round_tie_example:
  "double_round (10 * (4953959590107546 / 2 ^ 52)) = 11"
proof -
  define x :: real where "x = 10 * (4953959590107546 / 2 ^ 52)"
  have pos: "0 < x" by (simp add: x_def)
  have e: "\<lfloor>log 2 x\<rfloor> = 3"
    using pos by (subst floor_log_eq_powr_iff) (simp_all add: x_def)
  have "(2::real) powr (- 49) = inverse (2 powr 49)" by (rule powr_minus)
  then have u: "(2::real) powr (- 49) = 1 / 2 ^ 49"
    by (simp add: inverse_eq_divide)
  have y: "x / (1 / 2 ^ 49) = 6192449487634432 + 1 / 2" by (simp add: x_def)
  have r: "round_half_even (6192449487634432 + 1 / 2) = 6192449487634432"
  proof -
    have "\<lfloor>(6192449487634432::real) + 1 / 2\<rfloor> = 6192449487634432"
      by (simp add: floor_eq_iff)
    then show ?thesis by (simp add: round_half_even_def)
  qed
  have "double_round x = of_int (round_half_even (x / (1 / 2 ^ 49))) * (1 / 2 ^ 49)"
    using pos by (simp add: double_round_def e u Let_def)
  also have "\<dots> = 11" by (simp only: y r) simp
  finally show ?thesis by (simp add: x_def)
qed

lemma py_int_mul_float_int:
  assumes "\<bar>n\<bar> < 2 ^ 53" and "\<bar>n * k\<bar> < 2 ^ 53"
  shows "py_int_mul_float n (of_int k) = of_int (n * k)"
proof -
  have "double_round (of_int n) = of_int n" by (rule double_round_of_int [OF assms(1)])
  moreover have "double_round (of_int (n * k)) = of_int (n * k)"
    by (rule double_round_of_int [OF assms(2)])
  ultimately show ?thesis by (simp add: py_int_mul_float_def)
qed

lemma py_int_mul_float_one:
  assumes "\<bar>n\<bar> < 2 ^ 53"
  shows "py_int_mul_float n 1 = of_int n"
  using py_int_mul_float_int [of n 1] assms by simp

lemma py_int_mul_float_two:
  assumes "\<bar>n\<bar> < 2 ^ 52"
  shows "py_int_mul_float n 2 = of_int (2 * n)"
proof -
  have "\<bar>n\<bar> < 2 ^ 53" and "\<bar>n * 2\<bar> < 2 ^ 53" using assms by simp_all
  from py_int_mul_float_int [OF this] show ?thesis by (simp add: mult.commute)
qed

lemma py_int_mul_float_example: "py_int_mul_float 3 (3 / 2) = 9 / 2"
proof -
  have "double_round (of_int 3) = of_int 3" by (rule double_round_of_int) simp
  moreover have "double_round (of_int 9 * 2 powr of_int (- 1)) = of_int 9 * 2 powr of_int (- 1)"
    by (rule double_round_representable) simp
  moreover have "(2::real) powr of_int (- 1) = 1 / 2"
    by (simp add: powr_minus inverse_eq_divide)
  ultimately show ?thesis by (simp add: py_int_mul_float_def)
qed

text \<open>
  The double nearest to \<open>1.1\<close> is \<open>4953959590107546 / 2 ^ 52\<close>. Ten times it lies halfway
  between two doubles and is rounded to the even one, \<open>11\<close>: a table for 10 positions and
  the scaling factor \<open>1.1\<close> has 11 rows, although the exact product lies above 11.
\<close>

lemma py_int_mul_float_tie_example: "py_int_mul_float 10 (4953959590107546 / 2 ^ 52) = 11"
proof -
  have "double_round (of_int 10) = of_int 10" by (rule double_round_of_int) simp
  then show ?thesis
    using double_round_tie_example by (simp add: py_int_mul_float_def)
qed

lemma double_round_relative:
  obtains r where "\<bar>r\<bar> \<le> 1 / 16" and "double_round x = x * (1 + r)"
proof (cases "x = 0")
  case True
  then have "double_round x = x * (1 + 0)" by (simp add: double_round_def)
  then show ?thesis using that [of 0] by simp
next
  case False
  define r where "r = (double_round x - x) / x"
  have "\<bar>r\<bar> = \<bar>double_round x - x\<bar> / \<bar>x\<bar>" by (simp add: r_def)
  also have "\<dots> \<le> (\<bar>x\<bar> / 16) / \<bar>x\<bar>"
    using double_round_error [of x] False by (intro divide_right_mono) simp_all
  also have "\<dots> = 1 / 16" using False by simp
  finally have "\<bar>r\<bar> \<le> 1 / 16" .
  moreover have "double_round x = x * (1 + r)" using False by (simp add: r_def field_simps)
  ultimately show ?thesis using that by blast
qed

lemma ntk_operand_positive:
  assumes "n \<noteq> 0"
  shows "0 < (s * py_int_mul_float n s / of_int n) - (s - 1)"
proof -
  obtain r1 where r1: "\<bar>r1\<bar> \<le> 1 / 16" "double_round (of_int n) = of_int n * (1 + r1)"
    by (rule double_round_relative)
  obtain r2 where r2: "\<bar>r2\<bar> \<le> 1 / 16"
    "double_round (double_round (of_int n) * s) = double_round (of_int n) * s * (1 + r2)"
    by (rule double_round_relative)
  define q where "q = (1 + r1) * (1 + r2)"
  have "15 / 16 \<le> 1 + r1" and "15 / 16 \<le> 1 + r2" using r1(1) r2(1) by simp_all
  then have "(15 / 16) * (15 / 16) \<le> (1 + r1) * (1 + r2)"
    by (intro mult_mono) simp_all
  then have q: "3 / 4 \<le> q" by (simp add: q_def)
  have "py_int_mul_float n s = double_round (of_int n) * s * (1 + r2)"
    by (simp only: py_int_mul_float_def r2(2))
  also have "\<dots> = of_int n * s * q"
    by (simp add: r1(2) q_def)
  finally have "py_int_mul_float n s = of_int n * s * q" .
  then have "s * py_int_mul_float n s / of_int n = s\<^sup>2 * q"
    using assms by (simp add: power2_eq_square)
  moreover have "s\<^sup>2 * (3 / 4) \<le> s\<^sup>2 * q" using q by (intro mult_left_mono) simp_all
  moreover have "s\<^sup>2 * (3 / 4) - (s - 1) = 3 / 4 * (s - 2 / 3)\<^sup>2 + 2 / 3"
    by (simp add: power2_eq_square algebra_simps)
  moreover have "0 \<le> 3 / 4 * (s - 2 / 3)\<^sup>2" by simp
  ultimately show ?thesis by linarith
qed

section \<open>Facts about the base, linear and NTK variants\<close>

lemma torch_scalar_Inr: "torch_scalar b = Inr x \<Longrightarrow> x = py_value b"
  by (cases b) (auto split: if_splits)

lemma torch_scalar_fits: "float_or_int64 b \<Longrightarrow> torch_scalar b = Inr (py_value b)"
  by (cases b) auto

lemma compute_inv_freq_nonneg:
  assumes "0 \<le> rotary_dim self" and "torch_scalar b = Inr x"
  shows "compute_inv_freq self b
       = Inr (map (\<lambda>k. fl_div (Some 1)
                     (fl_pow x (fl_div (Some (2 * real k)) (Some (real_of_int (rotary_dim self))))))
                [0..<nat \<lceil>real_of_int (rotary_dim self) / 2\<rceil>])"
  using assms
  by (simp add: compute_inv_freq_def arange_step2 and_then_simps scalar_div_tensor_def
      scalar_pow_tensor_def tensor_div_scalar_def comp_def)

lemma compute_inv_freq_overflow:
  assumes "0 \<le> rotary_dim self" and "torch_scalar b = Inl e"
  shows "compute_inv_freq self b = Inl e"
  using assms by (simp add: compute_inv_freq_def arange_step2 and_then_simps)

lemma compute_inv_freq_negative:
  assumes "rotary_dim self < 0"
  shows "compute_inv_freq self b = Inl RuntimeError"
  using assms by (simp add: compute_inv_freq_def arange_negative and_then_simps)

lemma compute_inv_freq_Inr:
  assumes "compute_inv_freq self b = Inr f"
  shows "0 \<le> rotary_dim self" and "torch_scalar b = Inr (py_value b)"
    and "length f = nat \<lceil>real_of_int (rotary_dim self) / 2\<rceil>"
proof -
  show nn: "0 \<le> rotary_dim self"
  proof (rule ccontr)
    assume "\<not> 0 \<le> rotary_dim self"
    then have "compute_inv_freq self b = Inl RuntimeError"
      by (simp add: compute_inv_freq_negative)
    with assms show False by simp
  qed
  show ts: "torch_scalar b = Inr (py_value b)"
  proof (cases "torch_scalar b")
    case (Inl e)
    from compute_inv_freq_overflow [OF nn Inl] assms show ?thesis by simp
  next
    case (Inr x)
    then show ?thesis by (simp add: torch_scalar_Inr)
  qed
  from assms show "length f = nat \<lceil>real_of_int (rotary_dim self) / 2\<rceil>"
    by (auto simp: compute_inv_freq_nonneg [OF nn ts])
qed

lemma inv_freq_length_even:
  assumes "compute_inv_freq self b = Inr f" and "even (rotary_dim self)"
  shows "length f = nat (rotary_dim self div 2)" and "2 * length f = nat (rotary_dim self)"
proof -
  from compute_inv_freq_Inr [OF assms(1)]
  have nn: "0 \<le> rotary_dim self" and l: "length f = nat \<lceil>real_of_int (rotary_dim self) / 2\<rceil>"
    by simp_all
  show "length f = nat (rotary_dim self div 2)"
    using l assms(2) by (simp add: ceiling_half_even)
  then show "2 * length f = nat (rotary_dim self)"
    using nn assms(2) by (auto elim!: evenE)
qed

lemma inv_freq_entries:
  assumes "compute_inv_freq self b = Inr f" and "even (rotary_dim self)"
    and "2 \<le> rotary_dim self" and "0 < py_value b" and "i < nat (rotary_dim self div 2)"
  shows "f ! i = Some (1 / py_value b powr (2 * real i / real_of_int (rotary_dim self)))"
proof -
  have n: "nat \<lceil>real_of_int (rotary_dim self) / 2\<rceil> = nat (rotary_dim self div 2)"
    using assms(2) by (simp add: ceiling_half_even)
  have rd0: "real_of_int (rotary_dim self) \<noteq> 0" using assms(3) by simp
  have pos: "py_value b powr x \<noteq> 0" for x using assms(4) by simp
  from compute_inv_freq_Inr [OF assms(1)]
  have nn: "0 \<le> rotary_dim self" and ts: "torch_scalar b = Inr (py_value b)" by simp_all
  from assms(1) have "f = map (\<lambda>k. fl_div (Some 1)
                     (fl_pow (py_value b) (fl_div (Some (2 * real k)) (Some (real_of_int (rotary_dim self))))))
                [0..<nat (rotary_dim self div 2)]"
    by (simp add: compute_inv_freq_nonneg [OF nn ts] n)
  then show ?thesis
    using assms(4,5) rd0 pos by (simp add: fl_div_def fl_pow_def)
qed

lemma base_cache_Inr:
  assumes "compute_cos_sin_cache self = Inr c"
  shows "\<exists>f. compute_inv_freq self (base self) = Inr f \<and> 0 \<le> max_position_embeddings self
           \<and> c = cos_sin_table (positions (nat (max_position_embeddings self))) f"
  using assms
  by (auto simp: compute_cos_sin_cache_def and_then_eq_Inr arange_eq_Inr Let_def cos_sin_table_def)

lemma base_cache_succeeds:
  assumes "0 \<le> rotary_dim self" and "0 \<le> max_position_embeddings self"
    and "torch_scalar (base self) = Inr x"
  shows "\<exists>c. compute_cos_sin_cache self = Inr c"
  using assms(2)
  by (simp add: compute_cos_sin_cache_def compute_inv_freq_nonneg [OF assms(1,3)] arange_step1
      and_then_simps Let_def)

lemma linear_cache_Inr:
  assumes "Linear_compute_cos_sin_cache self = Inr c"
  shows "\<exists>f. compute_inv_freq self (base self) = Inr f
           \<and> 0 \<le> effective_max self
           \<and> c = cos_sin_table
                   (tensor_div_scalar (positions (nat \<lceil>effective_max self\<rceil>))
                      (scaling_factor self)) f"
  using assms
  by (auto simp: Linear_compute_cos_sin_cache_def and_then_eq_Inr arange_eq_Inr Let_def
      cos_sin_table_def effective_max_def)

lemma linear_cache_succeeds:
  assumes "0 \<le> rotary_dim self" and "0 \<le> effective_max self"
    and "torch_scalar (base self) = Inr x"
  shows "\<exists>c. Linear_compute_cos_sin_cache self = Inr c"
  using assms(2)
  by (simp add: Linear_compute_cos_sin_cache_def compute_inv_freq_nonneg [OF assms(1,3)]
      arange_step1 and_then_simps Let_def effective_max_def)

lemma ntk_base_Inr:
  "ntk_base self = Inr b \<longleftrightarrow>
     max_position_embeddings self \<noteq> 0 \<and> rotary_dim self \<noteq> 2 \<and> b = modified_base self"
  by (auto simp: ntk_base_def modified_base_def effective_max_def Let_def)

lemma ntk_cache_Inr:
  assumes "DynamicNTK_compute_cos_sin_cache self = Inr c"
  shows "\<exists>f. ntk_base self = Inr (modified_base self)
           \<and> compute_inv_freq self (PyFloat (modified_base self)) = Inr f
           \<and> 0 \<le> effective_max self
           \<and> c = cos_sin_table (positions (nat \<lceil>effective_max self\<rceil>)) f"
  using assms
  by (auto simp: DynamicNTK_compute_cos_sin_cache_def and_then_eq_Inr arange_eq_Inr Let_def
      cos_sin_table_def effective_max_def ntk_base_Inr)

lemma ntk_cache_succeeds:
  assumes "0 \<le> rotary_dim self" and "rotary_dim self \<noteq> 2" and "max_position_embeddings self \<noteq> 0"
    and "0 \<le> effective_max self"
  shows "\<exists>c. DynamicNTK_compute_cos_sin_cache self = Inr c"
proof -
  have "torch_scalar (PyFloat (modified_base self)) = Inr (modified_base self)" by simp
  from compute_inv_freq_nonneg [OF assms(1) this] assms(2-4) show ?thesis
    by (simp add: DynamicNTK_compute_cos_sin_cache_def ntk_base_Inr [THEN iffD2]
        arange_step1 and_then_simps Let_def effective_max_def)
qed

lemma py_int_mul_float_zero: "py_int_mul_float n 0 = 0"
  by (simp add: py_int_mul_float_def double_round_def)

lemma linear_positions:
  assumes "p < nat \<lceil>py_int_mul_float mpe sf\<rceil>"
  shows "tensor_div_scalar (positions (nat \<lceil>py_int_mul_float mpe sf\<rceil>)) sf ! p = Some (real p / sf)"
proof -
  have "sf \<noteq> 0" using assms by (auto simp: py_int_mul_float_zero)
  with assms show ?thesis
    by (simp add: tensor_div_scalar_def positions_def fl_div_def)
qed

lemma modified_base_unit_scale:
  assumes "scaling_factor self = 1" and "max_position_embeddings self \<noteq> 0"
    and "\<bar>max_position_embeddings self\<bar> < 2 ^ 53"
  shows "effective_max self = of_int (max_position_embeddings self)"
    and "modified_base self = py_value (base self)"
proof -
  show e: "effective_max self = of_int (max_position_embeddings self)"
    using assms(1,3) by (simp add: effective_max_def py_int_mul_float_one)
  show "modified_base self = py_value (base self)"
    using assms(1,2) by (simp add: modified_base_def e)
qed

lemma modified_base_positive:
  assumes "0 < py_value (base self)" and "max_position_embeddings self \<noteq> 0"
  shows "0 < modified_base self"
proof -
  have "0 < (scaling_factor self * effective_max self / real_of_int (max_position_embeddings self))
             - (scaling_factor self - 1)"
    unfolding effective_max_def by (rule ntk_operand_positive [OF assms(2)])
  then show ?thesis using assms(1) by (simp add: modified_base_def)
qed

lemma RotaryEmbedding_init_Inr:
  "RotaryEmbedding_init hs rd mpe b neox = Inr m \<longleftrightarrow>
     (\<exists>c. compute_cos_sin_cache
             \<lparr>head_size = hs, rotary_dim = rd, max_position_embeddings = mpe, base = b,
              is_neox_style = neox\<rparr> = Inr c
          \<and> m = \<lparr>attrs = \<lparr>head_size = hs, rotary_dim = rd, max_position_embeddings = mpe,
                            base = b, is_neox_style = neox\<rparr>,
                  cos_sin_cache = c\<rparr>)"
  by (auto simp: RotaryEmbedding_init_def and_then_eq_Inr Let_def)

lemma Linear_init_Inr:
  "Linear_init hs rd mpe b neox sf = Inr m \<longleftrightarrow>
     (\<exists>c. Linear_compute_cos_sin_cache
             \<lparr>head_size = hs, rotary_dim = rd, max_position_embeddings = mpe, base = b,
              is_neox_style = neox, scaling_factor = sf\<rparr> = Inr c
          \<and> m = \<lparr>attrs = \<lparr>head_size = hs, rotary_dim = rd, max_position_embeddings = mpe,
                            base = b, is_neox_style = neox, scaling_factor = sf\<rparr>,
                  cos_sin_cache = c\<rparr>)"
  by (auto simp: Linear_init_def and_then_eq_Inr Let_def)

lemma DynamicNTK_init_Inr:
  "DynamicNTK_init hs rd mpe b neox sf = Inr m \<longleftrightarrow>
     (\<exists>c. DynamicNTK_compute_cos_sin_cache
             \<lparr>head_size = hs, rotary_dim = rd, max_position_embeddings = mpe, base = b,
              is_neox_style = neox, scaling_factor = sf\<rparr> = Inr c
          \<and> m = \<lparr>attrs = \<lparr>head_size = hs, rotary_dim = rd, max_position_embeddings = mpe,
                            base = b, is_neox_style = neox, scaling_factor = sf\<rparr>,
                  cos_sin_cache = c\<rparr>)"
  by (auto simp: DynamicNTK_init_def and_then_eq_Inr Let_def)

lemma base_shape_layout:
  assumes c: "compute_cos_sin_cache self = Inr c" and ev: "even (rotary_dim self)"
  shows "has_shape c (nat (max_position_embeddings self)) (nat (rotary_dim self)) \<and>
      (\<exists>f. compute_inv_freq self (base self) = Inr f \<and>
           cos_sin_layout c (positions (nat (max_position_embeddings self))) f)"
proof -
  from base_cache_Inr [OF c] obtain f where f: "compute_inv_freq self (base self) = Inr f"
    and "c = cos_sin_table (positions (nat (max_position_embeddings self))) f" by auto
  then have l: "cos_sin_layout c (positions (nat (max_position_embeddings self))) f"
    by (simp add: table_layout)
  from layout_shape [OF l] inv_freq_length_even(2) [OF f ev]
  have "has_shape c (nat (max_position_embeddings self)) (nat (rotary_dim self))"
    by (simp add: positions_simps)
  with f l show ?thesis by blast
qed

lemma linear_shape_layout:
  assumes c: "Linear_compute_cos_sin_cache self = Inr c" and ev: "even (rotary_dim self)"
  shows "has_shape c (nat \<lceil>effective_max self\<rceil>) (nat (rotary_dim self)) \<and>
      (\<exists>f. compute_inv_freq self (base self) = Inr f \<and>
           cos_sin_layout c
             (tensor_div_scalar (positions (nat \<lceil>effective_max self\<rceil>))
                (scaling_factor self)) f)"
proof -
  let ?n = "nat \<lceil>effective_max self\<rceil>"
  from linear_cache_Inr [OF c] obtain f where f: "compute_inv_freq self (base self) = Inr f"
    and "c = cos_sin_table (tensor_div_scalar (positions ?n) (scaling_factor self)) f" by auto
  then have l: "cos_sin_layout c (tensor_div_scalar (positions ?n) (scaling_factor self)) f"
    by (simp add: table_layout)
  from layout_shape [OF l] inv_freq_length_even(2) [OF f ev]
  have "has_shape c ?n (nat (rotary_dim self))"
    by (simp add: positions_simps tensor_div_scalar_def)
  with f l show ?thesis by blast
qed

lemma ntk_shape_layout:
  assumes c: "DynamicNTK_compute_cos_sin_cache self = Inr c" and ev: "even (rotary_dim self)"
  shows "has_shape c (nat \<lceil>effective_max self\<rceil>) (nat (rotary_dim self)) \<and>
      (\<exists>f. compute_inv_freq self (PyFloat (modified_base self)) = Inr f \<and>
           cos_sin_layout c (positions (nat \<lceil>effective_max self\<rceil>)) f)"
proof -
  let ?n = "nat \<lceil>effective_max self\<rceil>"
  from ntk_cache_Inr [OF c] obtain f
    where f: "compute_inv_freq self (PyFloat (modified_base self)) = Inr f"
    and "c = cos_sin_table (positions ?n) f" by auto
  then have l: "cos_sin_layout c (positions ?n) f" by (simp add: table_layout)
  from layout_shape [OF l] inv_freq_length_even(2) [OF f ev]
  have "has_shape c ?n (nat (rotary_dim self))"
    by (simp add: positions_simps)
  with f l show ?thesis by blast
qed

section \<open>Facts about the YaRN variant\<close>

lemma yarn_dim_Inr:
  "yarn_find_correction_dim r d b m = Inr x \<longleftrightarrow>
     r \<noteq> 0 \<and> 0 < real_of_int m / (r * 2 * pi) \<and> 0 < b \<and> b \<noteq> 1 \<and>
     x = (real_of_int d * ln (real_of_int m / (r * 2 * pi))) / (2 * ln b)"
  by (auto simp: yarn_find_correction_dim_def)

lemma yarn_range_Inr:
  "yarn_find_correction_range lr hr d b m = Inr (lo, hi) \<longleftrightarrow>
     lr \<noteq> 0 \<and> 0 < real_of_int m / (lr * 2 * pi) \<and>
     hr \<noteq> 0 \<and> 0 < real_of_int m / (hr * 2 * pi) \<and> 0 < b \<and> b \<noteq> 1 \<and>
     lo = max \<lfloor>(real_of_int d * ln (real_of_int m / (lr * 2 * pi))) / (2 * ln b)\<rfloor> 0 \<and>
     hi = min \<lceil>(real_of_int d * ln (real_of_int m / (hr * 2 * pi))) / (2 * ln b)\<rceil> (d - 1)"
  by (auto simp: yarn_find_correction_range_def and_then_eq_Inr yarn_dim_Inr)

lemma ramp_denominator_nonzero: "ramp_denominator lo hi \<noteq> 0"
  by (simp add: ramp_denominator_def)

lemma ramp_mask_closed:
  assumes "0 \<le> n"
  shows "yarn_linear_ramp_mask (real_of_int lo) (real_of_int hi) n
       = Inr (map (\<lambda>j. Some (ramp lo hi j)) [0..<nat n])"
  using assms
  by (simp add: yarn_linear_ramp_mask_def arange_step1 positions_def and_then_simps Let_def
      tensor_div_scalar_def tensor_sub_scalar_def torch_clamp_def fl_sub_def fl_div_def
      ramp_def ramp_denominator_def comp_def)

lemma yarn_inv_freq_closed:
  assumes ev: "even (rotary_dim self)" and nn: "0 \<le> rotary_dim self"
    and rg: "YaRN_correction_range self = Inr (lo, hi)" and sf: "sf \<noteq> 0"
    and ts: "torch_scalar (base self) = Inr (py_value (base self))"
  shows "YaRN_compute_inv_freq self sf
       = Inr (map (\<lambda>j. Some (blended_inv_freq self sf lo hi j)) [0..<nat (rotary_dim self div 2)])"
proof -
  have n: "nat \<lceil>real_of_int (rotary_dim self) / 2\<rceil> = nat (rotary_dim self div 2)"
    using ev by (simp add: ceiling_half_even)
  have b: "0 < py_value (base self)"
    using rg by (simp add: YaRN_correction_range_def yarn_range_Inr)
  have half: "0 \<le> rotary_dim self div 2" using nn by simp
  have rd0: "real_of_int (rotary_dim self) \<noteq> 0" if "j < nat (rotary_dim self div 2)" for j
    using that by auto
  have pos: "scalar_pow_tensor (py_value (base self))
               (tensor_div_scalar (map (\<lambda>k. Some (2 * real k)) [0..<nat (rotary_dim self div 2)])
                  (real_of_int (rotary_dim self)))
           = map (\<lambda>k. Some (pos_freq self k)) [0..<nat (rotary_dim self div 2)]"
    using b rd0
    by (auto simp: scalar_pow_tensor_def tensor_div_scalar_def fl_pow_def fl_div_def pos_freq_def)
  have pf: "pos_freq self k \<noteq> 0" for k using b by (simp add: pos_freq_def)
  have "YaRN_compute_inv_freq self sf
      = (let pos_freqs = map (\<lambda>k. Some (pos_freq self k)) [0..<nat (rotary_dim self div 2)];
             inv_freq_extrapolation = scalar_div_tensor 1 pos_freqs;
             inv_freq_interpolation = scalar_div_tensor 1 (scalar_mul_tensor sf pos_freqs);
             inv_freq_mask = tensor_mul_scalar
                               (scalar_sub_tensor 1 (map (\<lambda>j. Some (ramp lo hi j)) [0..<nat (rotary_dim self div 2)]))
                               (extrapolation_factor self)
         in and_then (broadcast2 fl_mul inv_freq_interpolation (scalar_sub_tensor 1 inv_freq_mask)) (\<lambda>x.
            and_then (broadcast2 fl_mul inv_freq_extrapolation inv_freq_mask) (\<lambda>y.
              broadcast2 fl_add x y)))"
    by (simp add: YaRN_compute_inv_freq_def arange_step2 [OF nn] n and_then_simps rg ts
        ramp_mask_closed [OF half] pos)
  also have "\<dots> = Inr (map (\<lambda>j. Some (blended_inv_freq self sf lo hi j)) [0..<nat (rotary_dim self div 2)])"
    using sf pf
    by (simp add: Let_def and_then_simps comp_def
        scalar_div_tensor_def scalar_mul_tensor_def tensor_mul_scalar_def scalar_sub_tensor_def
        broadcast2_def map2_map_same fl_mul_def fl_div_def fl_sub_def fl_add_def
        blended_inv_freq_def inv_freq_mask_def)
  finally show ?thesis .
qed

lemma yarn_inv_freq_Inr:
  assumes "YaRN_compute_inv_freq self sf = Inr v"
  shows "0 \<le> rotary_dim self" and "\<exists>lo hi. YaRN_correction_range self = Inr (lo, hi)"
    and "torch_scalar (base self) = Inr (py_value (base self))"
proof -
  show "0 \<le> rotary_dim self"
  proof (rule ccontr)
    assume "\<not> 0 \<le> rotary_dim self"
    then have "YaRN_compute_inv_freq self sf = Inl RuntimeError"
      by (simp add: YaRN_compute_inv_freq_def arange_negative and_then_simps)
    with assms show False by simp
  qed
  from assms obtain x where x: "torch_scalar (base self) = Inr x"
    by (auto simp: YaRN_compute_inv_freq_def and_then_eq_Inr)
  then show "torch_scalar (base self) = Inr (py_value (base self))"
    by (simp add: torch_scalar_Inr)
  from assms show "\<exists>lo hi. YaRN_correction_range self = Inr (lo, hi)"
    by (auto simp: YaRN_compute_inv_freq_def and_then_eq_Inr Let_def)
qed

lemma yarn_inv_freq_length:
  assumes "YaRN_compute_inv_freq self sf = Inr f" and "even (rotary_dim self)" and "sf \<noteq> 0"
  shows "length f = nat (rotary_dim self div 2)" and "2 * length f = nat (rotary_dim self)"
proof -
  from yarn_inv_freq_Inr [OF assms(1)] obtain lo hi
    where nn: "0 \<le> rotary_dim self" and rg: "YaRN_correction_range self = Inr (lo, hi)"
      and ts: "torch_scalar (base self) = Inr (py_value (base self))"
    by auto
  from yarn_inv_freq_closed [OF assms(2) nn rg assms(3) ts] assms(1)
  show "length f = nat (rotary_dim self div 2)" by auto
  then show "2 * length f = nat (rotary_dim self)"
    using nn assms(2) by (auto elim!: evenE)
qed

lemma yarn_cache_Inr:
  assumes "YaRN_compute_cos_sin_cache self = Inr c"
  shows "\<exists>f. YaRN_compute_inv_freq self (scaling_factor self) = Inr f
           \<and> 0 \<le> effective_max self
           \<and> c = scaled_cos_sin_table (positions (nat \<lceil>effective_max self\<rceil>)) f (mscale self)"
  using assms
  by (auto simp: YaRN_compute_cos_sin_cache_def and_then_eq_Inr arange_eq_Inr Let_def
      scaled_cos_sin_table_def effective_max_def)

lemma yarn_cache_succeeds:
  assumes "even (rotary_dim self)" and "0 \<le> rotary_dim self"
    and "YaRN_correction_range self = Inr (lo, hi)" and "scaling_factor self \<noteq> 0"
    and "torch_scalar (base self) = Inr (py_value (base self))"
    and "0 \<le> effective_max self"
  shows "\<exists>c. YaRN_compute_cos_sin_cache self = Inr c"
  using assms(6)
  by (simp add: YaRN_compute_cos_sin_cache_def yarn_inv_freq_closed [OF assms(1-5)]
      arange_step1 and_then_simps Let_def effective_max_def)

lemma yarn_shape_layout:
  assumes c: "YaRN_compute_cos_sin_cache self = Inr c" and ev: "even (rotary_dim self)"
  shows "has_shape c (nat \<lceil>effective_max self\<rceil>) (nat (rotary_dim self)) \<and>
      (\<exists>f. YaRN_compute_inv_freq self (scaling_factor self) = Inr f \<and>
           scaled_cos_sin_layout c (positions (nat \<lceil>effective_max self\<rceil>)) f (mscale self))"
proof -
  let ?n = "nat \<lceil>effective_max self\<rceil>"
  from yarn_cache_Inr [OF c] obtain f
    where f: "YaRN_compute_inv_freq self (scaling_factor self) = Inr f"
    and "c = scaled_cos_sin_table (positions ?n) f (mscale self)" by auto
  then have l: "scaled_cos_sin_layout c (positions ?n) f (mscale self)"
    by (simp add: scaled_table_layout)
  have "has_shape c ?n (nat (rotary_dim self))"
  proof (cases "scaling_factor self = 0")
    case True
    then have "effective_max self = 0" by (simp add: effective_max_def py_int_mul_float_zero)
    with l have "c = []" by (simp add: scaled_cos_sin_layout_def positions_simps)
    with \<open>effective_max self = 0\<close> show ?thesis by (simp add: has_shape_def)
  next
    case False
    from scaled_layout_shape [OF l] yarn_inv_freq_length(2) [OF f ev False]
    show ?thesis by (simp add: positions_simps)
  qed
  with f l show ?thesis by blast
qed

lemma log_ratio_unit:
  assumes "1 < x" and "x < (b::real)"
  shows "0 < ln x / ln b" and "ln x / ln b < 1"
proof -
  have lx: "0 < ln x" using assms(1) by simp
  have lb: "ln x < ln b" using assms by simp
  show "0 < ln x / ln b" using lx lb by simp
  show "ln x / ln b < 1" using lx lb by simp
qed

lemma yarn_range_example:
  "yarn_find_correction_range 32 1 2 10000 2048 = Inr (0, 1)"
proof -
  have p2: "2 \<le> pi" and p4: "pi < 4" using pi_ge_two pi_less_4 by simp_all
  have a1: "1 < 2048 / (32 * 2 * pi)" using p4 by (simp add: field_simps)
  have a2: "2048 / (32 * 2 * pi) < 10000" using p2 by (simp add: field_simps)
  have b1: "1 < 2048 / (1 * 2 * pi)" using p4 by (simp add: field_simps)
  have b2: "2048 / (1 * 2 * pi) < 10000" using p2 by (simp add: field_simps)
  have lo: "\<lfloor>(real_of_int 2 * ln (real_of_int 2048 / (32 * 2 * pi))) / (2 * ln 10000)\<rfloor> = 0"
    using log_ratio_unit [OF a1 a2] by (simp add: floor_eq_iff)
  have hi: "\<lceil>(real_of_int 2 * ln (real_of_int 2048 / (1 * 2 * pi))) / (2 * ln 10000)\<rceil> = 1"
    using log_ratio_unit [OF b1 b2] by (simp add: ceiling_eq_iff)
  have "yarn_find_correction_range 32 1 2 10000 2048
      = Inr (max \<lfloor>(real_of_int 2 * ln (real_of_int 2048 / (32 * 2 * pi))) / (2 * ln 10000)\<rfloor> 0,
             min \<lceil>(real_of_int 2 * ln (real_of_int 2048 / (1 * 2 * pi))) / (2 * ln 10000)\<rceil> (2 - 1))"
    by (subst yarn_range_Inr) simp
  then show ?thesis by (simp only: lo hi) simp
qed

lemma yarn_example_range:
  "YaRN_correction_range
     \<lparr>head_size = 8, rotary_dim = 2, max_position_embeddings = 2048, base = PyInt 10000,
      is_neox_style = True, scaling_factor = sf, extrapolation_factor = ef, attn_factor = af,
      beta_fast = 32, beta_slow = 1, mscale = ms\<rparr> = Inr (0, 1)"
  by (simp add: YaRN_correction_range_def yarn_range_example)

lemma yarn_range_inverted_example:
  "\<exists>l h. yarn_find_correction_range 1 1 1 2 2048 = Inr (l, h) \<and> h < l"
proof -
  define x where "x = (real_of_int 1 * ln (real_of_int 2048 / (1 * 2 * pi))) / (2 * ln 2)"
  have p4: "pi < 4" by (rule pi_less_4)
  have "(4::real) \<le> 2048 / (1 * 2 * pi)" using p4 by (simp add: field_simps)
  then have "ln (4::real) \<le> ln (2048 / (1 * 2 * pi))" by simp
  moreover have "ln (4::real) = 2 * ln 2"
  proof -
    have "ln (4::real) = ln (2 * 2)" by simp
    also have "\<dots> = ln 2 + ln 2" by (rule ln_mult_pos) simp_all
    finally show ?thesis by simp
  qed
  ultimately have "1 \<le> x" by (simp add: x_def)
  then have fl: "1 \<le> \<lfloor>x\<rfloor>" by (simp add: le_floor_iff)
  have "yarn_find_correction_range 1 1 1 2 2048 = Inr (max \<lfloor>x\<rfloor> 0, min \<lceil>x\<rceil> (1 - 1))"
    unfolding x_def by (subst yarn_range_Inr) simp
  moreover have "min \<lceil>x\<rceil> (1 - 1) < max \<lfloor>x\<rfloor> 0" using fl by simp
  ultimately show ?thesis by blast
qed

lemma YaRN_init_Inr:
  "YaRN_init hs rd mpe b neox sf ef af bf bs = Inr m \<longleftrightarrow>
     (\<exists>c. YaRN_compute_cos_sin_cache
             \<lparr>head_size = hs, rotary_dim = rd, max_position_embeddings = mpe, base = b,
              is_neox_style = neox, scaling_factor = sf, extrapolation_factor = ef,
              attn_factor = af, beta_fast = bf, beta_slow = bs,
              mscale = yarn_get_mscale sf * af\<rparr> = Inr c
          \<and> m = \<lparr>attrs = \<lparr>head_size = hs, rotary_dim = rd, max_position_embeddings = mpe,
                            base = b, is_neox_style = neox, scaling_factor = sf,
                            extrapolation_factor = ef, attn_factor = af, beta_fast = bf,
                            beta_slow = bs, mscale = yarn_get_mscale sf * af\<rparr>,
                  cos_sin_cache = c\<rparr>)"
  by (auto simp: YaRN_init_def and_then_eq_Inr Let_def)

lemma yarn_example_blend:
  "blended_inv_freq
     \<lparr>head_size = 8, rotary_dim = 2, max_position_embeddings = 2048, base = PyInt 10000,
      is_neox_style = True, scaling_factor = sf, extrapolation_factor = 1, attn_factor = af,
      beta_fast = 32, beta_slow = 1, mscale = ms\<rparr> 2 0 1 0 = 1"
  by (simp add: blended_inv_freq_def pos_freq_def inv_freq_mask_def ramp_def ramp_denominator_def)

lemma yarn_example_inv_freq:
  "YaRN_compute_inv_freq
     \<lparr>head_size = 8, rotary_dim = 2, max_position_embeddings = 2048, base = PyInt 10000,
      is_neox_style = True, scaling_factor = sf, extrapolation_factor = 1, attn_factor = af,
      beta_fast = 32, beta_slow = 1, mscale = ms\<rparr> 2 = Inr [Some 1]"
proof -
  let ?Y = "\<lparr>head_size = 8, rotary_dim = 2, max_position_embeddings = 2048, base = PyInt 10000,
      is_neox_style = True, scaling_factor = sf, extrapolation_factor = 1, attn_factor = af,
      beta_fast = 32, beta_slow = 1, mscale = ms\<rparr>"
  have "YaRN_compute_inv_freq ?Y 2
      = Inr (map (\<lambda>j. Some (blended_inv_freq ?Y 2 0 1 j)) [0..<nat (rotary_dim ?Y div 2)])"
    by (rule yarn_inv_freq_closed) (simp_all add: yarn_example_range)
  also have "[0..<nat (rotary_dim ?Y div 2)] = [0]" by simp
  finally show ?thesis by (simp add: yarn_example_blend)
qed

lemma yarn_example_effective_max:
  "effective_max
     \<lparr>head_size = 8, rotary_dim = 2, max_position_embeddings = 2048, base = PyInt 10000,
      is_neox_style = True, scaling_factor = 2, extrapolation_factor = ef, attn_factor = af,
      beta_fast = 32, beta_slow = 1, mscale = ms\<rparr> = 4096"
  using py_int_mul_float_two [of 2048] by (simp add: effective_max_def)

section \<open>The claims\<close>

text \<open>
  C1. Whenever the inverse-frequency vector of the base variant is computed for an even
  \<open>rotary_dim \<ge> 2\<close> and a base above zero, it has \<open>rotary_dim / 2\<close> elements and its
  element \<open>i\<close> is \<open>1 / base ^ (2 i / rotary_dim)\<close>.
\<close>

theorem inv_freq_formula:
  assumes "compute_inv_freq self b = Inr v"
    and "even (rotary_dim self)" and "2 \<le> rotary_dim self" and "0 < py_value b"
  shows "length v = nat (rotary_dim self div 2)
       \<and> (\<forall>i < nat (rotary_dim self div 2).
             v ! i = Some (1 / py_value b powr (2 * real i / real_of_int (rotary_dim self))))"
  using inv_freq_length_even(1) [OF assms(1,2)] inv_freq_entries [OF assms]
  by blast

theorem inv_freq_formula_witness:
  "even (4::int) \<and> (2::int) \<le> 4 \<and> 0 < py_value (PyInt 10000)
   \<and> (\<exists>v. compute_inv_freq \<lparr>head_size = 8, rotary_dim = 4, max_position_embeddings = 2048,
                              base = PyInt 10000, is_neox_style = True\<rparr> (PyInt 10000) = Inr v
          \<and> length v = 2 \<and> v ! 0 = Some 1 \<and> v ! 1 = Some (1 / 100))"
proof -
  let ?self = "\<lparr>head_size = 8, rotary_dim = 4, max_position_embeddings = 2048,
                base = PyInt 10000, is_neox_style = True\<rparr>"
  have sq: "(10000::real) powr (1 / 2) = 100"
  proof -
    have "(10000::real) = 100 powr 2" by simp
    then have "(10000::real) powr (1 / 2) = (100 powr 2) powr (1 / 2)" by simp
    also have "\<dots> = 100" by (simp only: powr_powr) simp
    finally show ?thesis .
  qed
  have "torch_scalar (PyInt 10000) = Inr 10000" by simp
  from compute_inv_freq_nonneg [of ?self, OF _ this]
  obtain v where v: "compute_inv_freq ?self (PyInt 10000) = Inr v" by simp
  from inv_freq_formula [OF v]
  have len: "length v = nat (4 div 2)"
    and e: "\<forall>i < nat (4 div 2). v ! i = Some (1 / 10000 powr (2 * real i / real_of_int 4))"
    by simp_all
  from e have "v ! 0 = Some 1" by simp
  moreover have "(1::nat) < nat (4 div 2)" by simp
  with e have "v ! 1 = Some (1 / 10000 powr (2 * real 1 / real_of_int 4))" by blast
  then have "v ! 1 = Some (1 / 100)" using sq by simp
  ultimately show ?thesis using v len by simp
qed

text \<open>
  C2. As the claim states it, the table of a scaled variant has
  \<open>max_position_embeddings * scaling_factor\<close> rows and every entry is a cosine or a sine.
  The code passes the product to \<^verbatim>\<open>torch.arange\<close>, which rounds a fractional bound up:
  with 3 positions and the factor 1.5 the linear table has 5 rows, not 4.5. And YaRN
  multiplies every entry by \<^verbatim>\<open>mscale\<close>: with 2048 positions and the factor 2 the first
  entry of the table is \<open>0.1 * ln 2 + 1\<close>, which is above 1 and the cosine of no angle.
\<close>

theorem cache_shape_counterexample:
  "\<not> isl (Linear_compute_cos_sin_cache
             \<lparr>head_size = 8, rotary_dim = 4, max_position_embeddings = 3, base = PyInt 10000,
              is_neox_style = True, scaling_factor = 3 / 2\<rparr>)
   \<and> even (4::int)
   \<and> length (projr (Linear_compute_cos_sin_cache
             \<lparr>head_size = 8, rotary_dim = 4, max_position_embeddings = 3, base = PyInt 10000,
              is_neox_style = True, scaling_factor = 3 / 2\<rparr>)) = 5
   \<and> real 5 \<noteq> real_of_int 3 * (3 / 2)
   \<and> \<not> isl (YaRN_compute_cos_sin_cache
             \<lparr>head_size = 8, rotary_dim = 2, max_position_embeddings = 2048, base = PyInt 10000,
              is_neox_style = True, scaling_factor = 2, extrapolation_factor = 1,
              attn_factor = 1, beta_fast = 32, beta_slow = 1, mscale = yarn_get_mscale 2 * 1\<rparr>)
   \<and> even (2::int)
   \<and> projr (YaRN_compute_cos_sin_cache
             \<lparr>head_size = 8, rotary_dim = 2, max_position_embeddings = 2048, base = PyInt 10000,
              is_neox_style = True, scaling_factor = 2, extrapolation_factor = 1,
              attn_factor = 1, beta_fast = 32, beta_slow = 1, mscale = yarn_get_mscale 2 * 1\<rparr>)
       ! 0 ! 0 = Some (0.1 * ln 2 + 1)
   \<and> (1::real) < 0.1 * ln 2 + 1"
proof -
  let ?L = "\<lparr>head_size = 8, rotary_dim = 4, max_position_embeddings = 3, base = PyInt 10000,
              is_neox_style = True, scaling_factor = 3 / 2\<rparr>"
  let ?Y = "\<lparr>head_size = 8, rotary_dim = 2, max_position_embeddings = 2048, base = PyInt 10000,
              is_neox_style = True, scaling_factor = 2, extrapolation_factor = 1,
              attn_factor = 1, beta_fast = 32, beta_slow = 1, mscale = yarn_get_mscale 2 * 1\<rparr>"
  have eL: "effective_max ?L = 9 / 2"
    by (simp add: effective_max_def py_int_mul_float_example)
  have "torch_scalar (base ?L) = Inr 10000" by simp
  from linear_cache_succeeds [of ?L, OF _ _ this] eL
  obtain c where c: "Linear_compute_cos_sin_cache ?L = Inr c" by auto
  have c5: "\<lceil>(9::real) / 2\<rceil> = 5" by (simp add: ceiling_eq_iff)
  from linear_shape_layout [OF c] have lenL: "length c = 5" by (simp add: has_shape_def eL c5)
  have eY: "effective_max ?Y = 4096" by (rule yarn_example_effective_max)
  from yarn_cache_succeeds [of ?Y 0 1] yarn_example_range eY
  obtain d where d: "YaRN_compute_cos_sin_cache ?Y = Inr d" by auto
  from yarn_cache_Inr [OF d]
  have "d = scaled_cos_sin_table (positions (nat \<lceil>effective_max ?Y\<rceil>)) [Some 1] (mscale ?Y)"
    by (simp add: yarn_example_inv_freq)
  then have "scaled_cos_sin_layout d (positions 4096) [Some 1] (mscale ?Y)"
    using scaled_table_layout [of "positions 4096" "[Some 1]" "mscale ?Y"]
    by (simp add: yarn_example_effective_max)
  then have "d ! 0 ! 0 = fl_mul (fl_cos (fl_mul (positions 4096 ! 0) ([Some 1] ! 0))) (Some (mscale ?Y))"
    by (simp add: scaled_cos_sin_layout_def positions_simps)
  then have d00: "d ! 0 ! 0 = Some (0.1 * ln 2 + 1)"
    by (simp add: positions_simps fl_mul_def fl_cos_def yarn_get_mscale_def)
  have "(0::real) < ln 2" by simp
  then have "(1::real) < 0.1 * ln 2 + 1" by simp
  with c lenL d d00 show ?thesis by simp
qed

text \<open>
  C2, amended. Whenever a variant builds its table for an even \<open>rotary_dim\<close>, the table
  has \<open>rotary_dim\<close> columns and one row for each position: \<open>max_position_embeddings\<close>
  rows for the base variant and, for the linear, NTK and YaRN variants, the product
  \<open>max_position_embeddings * scaling_factor\<close> as Python computes it, rounded up to an
  integer. In each row the first half holds the cosines and the second half the sines of
  the same angles \<open>t[p] * inv_freq[j]\<close>, where \<open>inv_freq\<close> is the inverse-frequency vector
  of the variant; YaRN multiplies every entry by \<^verbatim>\<open>mscale\<close>.
\<close>

theorem cache_shape_and_layout:
  "(compute_cos_sin_cache aB = Inr cB \<and> even (rotary_dim aB) \<longrightarrow>
      has_shape cB (nat (max_position_embeddings aB)) (nat (rotary_dim aB)) \<and>
      (\<exists>f. compute_inv_freq aB (base aB) = Inr f \<and>
           cos_sin_layout cB (positions (nat (max_position_embeddings aB))) f))
   \<and> (Linear_compute_cos_sin_cache aL = Inr cL \<and> even (rotary_dim aL) \<longrightarrow>
      has_shape cL (nat \<lceil>effective_max aL\<rceil>) (nat (rotary_dim aL)) \<and>
      (\<exists>f. compute_inv_freq aL (base aL) = Inr f \<and>
           cos_sin_layout cL
             (tensor_div_scalar (positions (nat \<lceil>effective_max aL\<rceil>)) (scaling_factor aL)) f))
   \<and> (DynamicNTK_compute_cos_sin_cache aN = Inr cN \<and> even (rotary_dim aN) \<longrightarrow>
      has_shape cN (nat \<lceil>effective_max aN\<rceil>) (nat (rotary_dim aN)) \<and>
      (\<exists>f. compute_inv_freq aN (PyFloat (modified_base aN)) = Inr f \<and>
           cos_sin_layout cN (positions (nat \<lceil>effective_max aN\<rceil>)) f))
   \<and> (YaRN_compute_cos_sin_cache aY = Inr cY \<and> even (rotary_dim aY) \<longrightarrow>
      has_shape cY (nat \<lceil>effective_max aY\<rceil>) (nat (rotary_dim aY)) \<and>
      (\<exists>f. YaRN_compute_inv_freq aY (scaling_factor aY) = Inr f \<and>
           scaled_cos_sin_layout cY (positions (nat \<lceil>effective_max aY\<rceil>)) f (mscale aY)))"
proof -
  have 1: "compute_cos_sin_cache aB = Inr cB \<and> even (rotary_dim aB) \<longrightarrow>
      has_shape cB (nat (max_position_embeddings aB)) (nat (rotary_dim aB)) \<and>
      (\<exists>f. compute_inv_freq aB (base aB) = Inr f \<and>
           cos_sin_layout cB (positions (nat (max_position_embeddings aB))) f)"
    using base_shape_layout by blast
  have 2: "Linear_compute_cos_sin_cache aL = Inr cL \<and> even (rotary_dim aL) \<longrightarrow>
      has_shape cL (nat \<lceil>effective_max aL\<rceil>) (nat (rotary_dim aL)) \<and>
      (\<exists>f. compute_inv_freq aL (base aL) = Inr f \<and>
           cos_sin_layout cL
             (tensor_div_scalar (positions (nat \<lceil>effective_max aL\<rceil>)) (scaling_factor aL)) f)"
    using linear_shape_layout by blast
  have 3: "DynamicNTK_compute_cos_sin_cache aN = Inr cN \<and> even (rotary_dim aN) \<longrightarrow>
      has_shape cN (nat \<lceil>effective_max aN\<rceil>) (nat (rotary_dim aN)) \<and>
      (\<exists>f. compute_inv_freq aN (PyFloat (modified_base aN)) = Inr f \<and>
           cos_sin_layout cN (positions (nat \<lceil>effective_max aN\<rceil>)) f)"
    using ntk_shape_layout by blast
  have 4: "YaRN_compute_cos_sin_cache aY = Inr cY \<and> even (rotary_dim aY) \<longrightarrow>
      has_shape cY (nat \<lceil>effective_max aY\<rceil>) (nat (rotary_dim aY)) \<and>
      (\<exists>f. YaRN_compute_inv_freq aY (scaling_factor aY) = Inr f \<and>
           scaled_cos_sin_layout cY (positions (nat \<lceil>effective_max aY\<rceil>)) f (mscale aY))"
    using yarn_shape_layout by blast
  show ?thesis by (rule conjI [OF 1 conjI [OF 2 conjI [OF 3 4]]])
qed

theorem cache_shape_and_layout_witness:
  "(\<exists>c. compute_cos_sin_cache \<lparr>head_size = 8, rotary_dim = 4, max_position_embeddings = 1,
                                base = PyInt 10000, is_neox_style = True\<rparr> = Inr c
        \<and> has_shape c 1 4)
   \<and> (\<exists>c. Linear_compute_cos_sin_cache
             \<lparr>head_size = 8, rotary_dim = 4, max_position_embeddings = 3, base = PyInt 10000,
              is_neox_style = True, scaling_factor = 3 / 2\<rparr> = Inr c
        \<and> has_shape c 5 4)
   \<and> (\<exists>c. Linear_compute_cos_sin_cache
             \<lparr>head_size = 8, rotary_dim = 4, max_position_embeddings = 10, base = PyInt 10000,
              is_neox_style = True, scaling_factor = 2476979795053773 / 2251799813685248\<rparr> = Inr c
        \<and> has_shape c 11 4)
   \<and> (\<exists>c. DynamicNTK_compute_cos_sin_cache
             \<lparr>head_size = 8, rotary_dim = 4, max_position_embeddings = 2, base = PyInt 10000,
              is_neox_style = True, scaling_factor = 2\<rparr> = Inr c
        \<and> has_shape c 4 4)
   \<and> (\<exists>c. YaRN_compute_cos_sin_cache
             \<lparr>head_size = 8, rotary_dim = 2, max_position_embeddings = 2048, base = PyInt 10000,
              is_neox_style = True, scaling_factor = 2, extrapolation_factor = 1,
              attn_factor = 1, beta_fast = 32, beta_slow = 1, mscale = yarn_get_mscale 2 * 1\<rparr> = Inr c
        \<and> has_shape c 4096 2)"
proof -
  let ?B = "\<lparr>head_size = 8, rotary_dim = 4, max_position_embeddings = 1,
             base = PyInt 10000, is_neox_style = True\<rparr>"
  let ?L = "\<lparr>head_size = 8, rotary_dim = 4, max_position_embeddings = 3, base = PyInt 10000,
              is_neox_style = True, scaling_factor = 3 / 2\<rparr>"
  let ?T = "\<lparr>head_size = 8, rotary_dim = 4, max_position_embeddings = 10, base = PyInt 10000,
              is_neox_style = True, scaling_factor = 2476979795053773 / 2251799813685248\<rparr>"
  let ?N = "\<lparr>head_size = 8, rotary_dim = 4, max_position_embeddings = 2, base = PyInt 10000,
              is_neox_style = True, scaling_factor = 2\<rparr>"
  let ?Y = "\<lparr>head_size = 8, rotary_dim = 2, max_position_embeddings = 2048, base = PyInt 10000,
              is_neox_style = True, scaling_factor = 2, extrapolation_factor = 1,
              attn_factor = 1, beta_fast = 32, beta_slow = 1, mscale = yarn_get_mscale 2 * 1\<rparr>"
  have ts: "torch_scalar (PyInt 10000) = Inr 10000" by simp
  have eL: "effective_max ?L = 9 / 2"
    by (simp add: effective_max_def py_int_mul_float_example)
  have eT: "effective_max ?T = 11"
    using py_int_mul_float_tie_example by (simp add: effective_max_def)
  have eN: "effective_max ?N = 4"
    using py_int_mul_float_two [of 2] by (simp add: effective_max_def)
  have eY: "effective_max ?Y = 4096" by (rule yarn_example_effective_max)
  obtain cB where cB: "compute_cos_sin_cache ?B = Inr cB"
    using base_cache_succeeds [of ?B] ts by auto
  obtain cL where cL: "Linear_compute_cos_sin_cache ?L = Inr cL"
    using linear_cache_succeeds [of ?L] ts eL by auto
  obtain cT where cT: "Linear_compute_cos_sin_cache ?T = Inr cT"
    using linear_cache_succeeds [of ?T] ts eT by auto
  obtain cN where cN: "DynamicNTK_compute_cos_sin_cache ?N = Inr cN"
    using ntk_cache_succeeds [of ?N] eN by auto
  obtain cY where cY: "YaRN_compute_cos_sin_cache ?Y = Inr cY"
    using yarn_cache_succeeds [of ?Y 0 1] yarn_example_range eY by auto
  have c5: "\<lceil>(9::real) / 2\<rceil> = 5" by (simp add: ceiling_eq_iff)
  note inst = cache_shape_and_layout [of ?B cB ?L cL ?N cN ?Y cY]
  note inst' = cache_shape_and_layout [of ?B cB ?T cT ?N cN ?Y cY]
  from inst cB have "has_shape cB 1 4" by simp
  moreover from inst cL have "has_shape cL 5 4" by (simp add: eL c5)
  moreover from inst' cT have "has_shape cT 11 4" by (simp add: eT)
  moreover from inst cN have "has_shape cN 4 4" by (simp add: eN)
  moreover from inst cY have "has_shape cY 4096 2" by (simp add: yarn_example_effective_max)
  ultimately show ?thesis using cB cL cT cN cY by blast
qed

text \<open>
  C3. In every table the linear-scaling constructor builds, row \<open>p\<close> holds the cosines and
  sines of the angles \<open>(p / scaling_factor) * inv_freq[j]\<close>: the position fed to the outer
  product is \<open>t[p] = p / scaling_factor\<close>, for every row of the table. With the factor 2
  (and \<open>max_position_embeddings\<close> below \<open>2 ^ 52\<close>, where the product is exact) the base
  constructor succeeds on the same parameters, the scaled table has twice as many rows,
  and its row \<open>2 p\<close> is row \<open>p\<close> of the base table for every
  \<open>p < max_position_embeddings\<close>.
\<close>

theorem linear_scaling_compression:
  assumes "Linear_init hs rd mpe b neox sf = Inr ml"
  shows "(\<exists>f. compute_inv_freq (attrs ml) b = Inr f
            \<and> length (cos_sin_cache ml) = nat \<lceil>py_int_mul_float mpe sf\<rceil>
            \<and> (\<forall>p < length (cos_sin_cache ml).
                  cos_sin_cache ml ! p
                    = map (\<lambda>x. fl_cos (fl_mul (Some (real p / sf)) x)) f
                    @ map (\<lambda>x. fl_sin (fl_mul (Some (real p / sf)) x)) f))
       \<and> (sf = 2 \<and> \<bar>mpe\<bar> < 2 ^ 52 \<longrightarrow>
            (\<exists>mb. RotaryEmbedding_init hs rd mpe b neox = Inr mb
               \<and> length (cos_sin_cache mb) = nat mpe
               \<and> length (cos_sin_cache ml) = 2 * nat mpe
               \<and> (\<forall>p < nat mpe. cos_sin_cache ml ! (2 * p) = cos_sin_cache mb ! p)))"
proof -
  let ?L = "\<lparr>head_size = hs, rotary_dim = rd, max_position_embeddings = mpe, base = b,
              is_neox_style = neox, scaling_factor = sf\<rparr>"
  let ?B = "\<lparr>head_size = hs, rotary_dim = rd, max_position_embeddings = mpe, base = b,
              is_neox_style = neox\<rparr>"
  let ?n = "nat \<lceil>py_int_mul_float mpe sf\<rceil>"
  from assms obtain c where c: "Linear_compute_cos_sin_cache ?L = Inr c"
    and ml: "ml = \<lparr>attrs = ?L, cos_sin_cache = c\<rparr>"
    by (auto simp: Linear_init_Inr)
  have em: "effective_max ?L = py_int_mul_float mpe sf" by (simp add: effective_max_def)
  from linear_cache_Inr [OF c] obtain f where f: "compute_inv_freq ?L b = Inr f"
    and nn: "0 \<le> py_int_mul_float mpe sf"
    and t: "c = cos_sin_table (tensor_div_scalar (positions ?n) sf) f"
    by (auto simp: em)
  have len: "length c = ?n"
    by (simp add: t table_length tensor_div_scalar_def positions_simps)
  have row: "c ! p = map (\<lambda>x. fl_cos (fl_mul (Some (real p / sf)) x)) f
                   @ map (\<lambda>x. fl_sin (fl_mul (Some (real p / sf)) x)) f" if "p < ?n" for p
    using that
    by (simp add: t table_row tensor_div_scalar_def [of "positions ?n"] positions_simps
        linear_positions [OF that, unfolded tensor_div_scalar_def])
  have first: "\<exists>f. compute_inv_freq (attrs ml) b = Inr f
            \<and> length (cos_sin_cache ml) = ?n
            \<and> (\<forall>p < length (cos_sin_cache ml).
                  cos_sin_cache ml ! p
                    = map (\<lambda>x. fl_cos (fl_mul (Some (real p / sf)) x)) f
                    @ map (\<lambda>x. fl_sin (fl_mul (Some (real p / sf)) x)) f)"
    using f len row by (auto simp: ml)
  have second: "\<exists>mb. RotaryEmbedding_init hs rd mpe b neox = Inr mb
               \<and> length (cos_sin_cache mb) = nat mpe
               \<and> length (cos_sin_cache ml) = 2 * nat mpe
               \<and> (\<forall>p < nat mpe. cos_sin_cache ml ! (2 * p) = cos_sin_cache mb ! p)"
    if two: "sf = 2" and small: "\<bar>mpe\<bar> < 2 ^ 52"
  proof -
    have prod: "py_int_mul_float mpe sf = of_int (2 * mpe)"
      using two py_int_mul_float_two [OF small] by simp
    have mpe: "0 \<le> mpe" using nn prod by simp
    have "\<lceil>py_int_mul_float mpe sf\<rceil> = 2 * mpe"
      unfolding prod by (simp only: ceiling_of_int)
    then have n2: "?n = 2 * nat mpe" using mpe by simp
    from compute_inv_freq_Inr [OF f]
    have rd: "0 \<le> rd" and ts: "torch_scalar b = Inr (py_value b)" by simp_all
    have fB: "compute_inv_freq ?B b = Inr f"
      using f by (simp add: compute_inv_freq_def)
    from base_cache_succeeds [of ?B] rd mpe ts obtain cb
      where cb: "compute_cos_sin_cache ?B = Inr cb" by auto
    from base_cache_Inr [OF cb] fB have tb: "cb = cos_sin_table (positions (nat mpe)) f"
      by auto
    have "c ! (2 * p) = cb ! p" if "p < nat mpe" for p
    proof -
      have "2 * p < ?n" using that n2 by simp
      from row [OF this] two that show ?thesis
        by (simp add: tb table_row positions_simps)
    qed
    then show ?thesis
      using cb len n2 by (simp add: RotaryEmbedding_init_Inr ml tb table_length positions_simps)
  qed
  from first second show ?thesis by blast
qed

theorem linear_scaling_compression_witness:
  "\<exists>ml mb. Linear_init 8 4 2 (PyInt 10000) True 2 = Inr ml
      \<and> RotaryEmbedding_init 8 4 2 (PyInt 10000) True = Inr mb
      \<and> length (cos_sin_cache ml) = 4
      \<and> cos_sin_cache ml ! 2 = cos_sin_cache mb ! 1"
proof -
  let ?L = "\<lparr>head_size = 8, rotary_dim = 4, max_position_embeddings = 2, base = PyInt 10000,
              is_neox_style = True, scaling_factor = 2\<rparr>"
  have "effective_max ?L = 4"
    using py_int_mul_float_two [of 2] by (simp add: effective_max_def)
  moreover have "torch_scalar (base ?L) = Inr 10000" by simp
  ultimately obtain c where "Linear_compute_cos_sin_cache ?L = Inr c"
    using linear_cache_succeeds [of ?L 10000] by auto
  then obtain ml where ml: "Linear_init 8 4 2 (PyInt 10000) True 2 = Inr ml"
    by (auto simp: Linear_init_Inr)
  from linear_scaling_compression [OF ml]
  obtain mb where mb: "RotaryEmbedding_init 8 4 2 (PyInt 10000) True = Inr mb"
    and len: "length (cos_sin_cache ml) = 2 * nat 2"
    and rows: "\<forall>p < nat 2. cos_sin_cache ml ! (2 * p) = cos_sin_cache mb ! p"
    by auto
  have "(1::nat) < nat 2" by simp
  with rows have "cos_sin_cache ml ! (2 * 1) = cos_sin_cache mb ! 1" by blast
  with ml mb len show ?thesis by auto
qed

text \<open>
  C4. Whenever the dynamic-NTK variant builds its table, the inverse frequencies are those
  of the base variant's \<^verbatim>\<open>_compute_inv_freq\<close> at the modified base
  \<open>base * ((scaling_factor * effective_max / max_position_embeddings) - (scaling_factor - 1))
  ^ (rotary_dim / (rotary_dim - 2))\<close>, the rows are built from the uncompressed positions
  \<open>0, 1, 2, \<dots>\<close> (no division by the scaling factor), one for each integer below the
  effective maximum, and for an even \<open>rotary_dim > 2\<close> and a positive \<open>base\<close> element \<open>i\<close> of
  the inverse frequencies is \<open>1 / base' ^ (2 i / rotary_dim)\<close>.
\<close>

theorem ntk_modified_base:
  assumes "DynamicNTK_compute_cos_sin_cache self = Inr c"
  shows "\<exists>f. compute_inv_freq self (PyFloat (modified_base self)) = Inr f
           \<and> cos_sin_layout c (positions (nat \<lceil>effective_max self\<rceil>)) f
           \<and> (even (rotary_dim self) \<and> 2 < rotary_dim self \<and> 0 < py_value (base self) \<longrightarrow>
                (\<forall>i < nat (rotary_dim self div 2).
                   f ! i = Some (1 / modified_base self
                                       powr (2 * real i / real_of_int (rotary_dim self)))))"
proof -
  from ntk_cache_Inr [OF assms] obtain f
    where b: "ntk_base self = Inr (modified_base self)"
    and f: "compute_inv_freq self (PyFloat (modified_base self)) = Inr f"
    and t: "c = cos_sin_table (positions (nat \<lceil>effective_max self\<rceil>)) f"
    by auto
  from b have mpe: "max_position_embeddings self \<noteq> 0" by (simp add: ntk_base_Inr)
  have "f ! i = Some (1 / modified_base self powr (2 * real i / real_of_int (rotary_dim self)))"
    if "even (rotary_dim self)" and "2 < rotary_dim self" and "0 < py_value (base self)"
      and "i < nat (rotary_dim self div 2)" for i
    using inv_freq_entries [OF f that(1) _ _ that(4)] that(2)
      modified_base_positive [OF that(3) mpe] by simp
  with f t show ?thesis by (auto simp: table_layout)
qed

theorem ntk_modified_base_witness:
  "\<exists>c f. DynamicNTK_compute_cos_sin_cache
            \<lparr>head_size = 8, rotary_dim = 4, max_position_embeddings = 2, base = PyInt 10000,
             is_neox_style = True, scaling_factor = 2\<rparr> = Inr c
      \<and> modified_base
            \<lparr>head_size = 8, rotary_dim = 4, max_position_embeddings = 2, base = PyInt 10000,
             is_neox_style = True, scaling_factor = 2\<rparr> = 90000
      \<and> compute_inv_freq
            \<lparr>head_size = 8, rotary_dim = 4, max_position_embeddings = 2, base = PyInt 10000,
             is_neox_style = True, scaling_factor = 2\<rparr> (PyFloat 90000) = Inr f
      \<and> cos_sin_layout c (positions 4) f
      \<and> f ! 1 = Some (1 / 300)"
proof -
  let ?N = "\<lparr>head_size = 8, rotary_dim = 4, max_position_embeddings = 2, base = PyInt 10000,
              is_neox_style = True, scaling_factor = 2\<rparr>"
  have em: "effective_max ?N = 4"
    using py_int_mul_float_two [of 2] by (simp add: effective_max_def)
  have mb: "modified_base ?N = 90000"
    by (simp add: modified_base_def em)
  have sq: "(90000::real) powr (1 / 2) = 300"
  proof -
    have "(90000::real) = 300 powr 2" by simp
    then have "(90000::real) powr (1 / 2) = (300 powr 2) powr (1 / 2)" by simp
    also have "\<dots> = 300" by (simp only: powr_powr) simp
    finally show ?thesis .
  qed
  obtain c where c: "DynamicNTK_compute_cos_sin_cache ?N = Inr c"
    using ntk_cache_succeeds [of ?N] em by auto
  from ntk_modified_base [OF c] obtain f
    where f: "compute_inv_freq ?N (PyFloat (modified_base ?N)) = Inr f"
      and l: "cos_sin_layout c (positions (nat \<lceil>effective_max ?N\<rceil>)) f"
      and e: "\<forall>i < nat (4 div 2). f ! i = Some (1 / modified_base ?N powr (2 * real i / real_of_int 4))"
    by auto
  have "(1::nat) < nat (4 div 2)" by simp
  with e have "f ! 1 = Some (1 / modified_base ?N powr (2 * real 1 / real_of_int 4))" by blast
  then have "f ! 1 = Some (1 / 300)" using sq by (simp add: mb)
  with c f l mb em show ?thesis by auto
qed

text \<open>
  C5. As the claim states it, every dynamic-NTK construction with \<open>scaling_factor = 1\<close> has
  the table of the base variant built from the same parameters. The NTK variant passes
  the \<^verbatim>\<open>float\<close> \<open>base * 1.0\<close> to \<^verbatim>\<open>_compute_inv_freq\<close>, the base variant passes \<^verbatim>\<open>base\<close> as it
  was given: with the \<^verbatim>\<open>int\<close> base \<open>2 ^ 64\<close> the NTK constructor builds its table and the
  base constructor raises OverflowError.
\<close>

theorem ntk_unit_scale_counterexample:
  "\<not> isl (DynamicNTK_init 8 4 2 (PyInt (2 ^ 64)) True 1)
   \<and> RotaryEmbedding_init 8 4 2 (PyInt (2 ^ 64)) True = Inl OverflowError"
proof -
  let ?N = "\<lparr>head_size = 8, rotary_dim = 4, max_position_embeddings = 2, base = PyInt (2 ^ 64),
              is_neox_style = True, scaling_factor = 1\<rparr>"
  let ?B = "\<lparr>head_size = 8, rotary_dim = 4, max_position_embeddings = 2, base = PyInt (2 ^ 64),
              is_neox_style = True\<rparr>"
  have "effective_max ?N = 2"
    using py_int_mul_float_one [of 2] by (simp add: effective_max_def)
  then obtain c where "DynamicNTK_compute_cos_sin_cache ?N = Inr c"
    using ntk_cache_succeeds [of ?N] by auto
  then obtain m where "DynamicNTK_init 8 4 2 (PyInt (2 ^ 64)) True 1 = Inr m"
    by (auto simp: DynamicNTK_init_Inr)
  moreover have "torch_scalar (PyInt (2 ^ 64)) = Inl OverflowError" by simp
  then have "compute_inv_freq ?B (PyInt (2 ^ 64)) = Inl OverflowError"
    by (intro compute_inv_freq_overflow) simp_all
  then have "RotaryEmbedding_init 8 4 2 (PyInt (2 ^ 64)) True = Inl OverflowError"
    by (simp add: RotaryEmbedding_init_def compute_cos_sin_cache_def and_then_simps)
  ultimately show ?thesis by simp
qed

text \<open>
  C5, amended. For every dynamic-NTK construction with \<open>scaling_factor = 1\<close> whose base is
  a \<^verbatim>\<open>float\<close> or an \<^verbatim>\<open>int\<close> that fits a signed 64-bit integer (and whose
  \<open>max_position_embeddings\<close> is below \<open>2 ^ 53\<close>, where its conversion to a \<^verbatim>\<open>float\<close> is
  exact), the base constructor succeeds on the same \<open>head_size\<close>, \<open>rotary_dim\<close>,
  \<open>max_position_embeddings\<close> and \<open>base\<close>, and the two tables are equal.
\<close>

theorem ntk_unit_scale_is_base:
  assumes "DynamicNTK_init hs rd mpe b neox 1 = Inr m"
    and "float_or_int64 b" and "\<bar>mpe\<bar> < 2 ^ 53"
  shows "\<exists>m'. RotaryEmbedding_init hs rd mpe b neox = Inr m'
            \<and> cos_sin_cache m' = cos_sin_cache m"
proof -
  let ?N = "\<lparr>head_size = hs, rotary_dim = rd, max_position_embeddings = mpe, base = b,
              is_neox_style = neox, scaling_factor = 1\<rparr>"
  let ?B = "\<lparr>head_size = hs, rotary_dim = rd, max_position_embeddings = mpe, base = b,
              is_neox_style = neox\<rparr>"
  from assms(1) obtain c where c: "DynamicNTK_compute_cos_sin_cache ?N = Inr c"
    and m: "cos_sin_cache m = c"
    by (auto simp: DynamicNTK_init_Inr)
  from ntk_cache_Inr [OF c] obtain f
    where nb: "ntk_base ?N = Inr (modified_base ?N)"
    and f: "compute_inv_freq ?N (PyFloat (modified_base ?N)) = Inr f"
    and nn: "0 \<le> effective_max ?N"
    and t: "c = cos_sin_table (positions (nat \<lceil>effective_max ?N\<rceil>)) f"
    by auto
  from nb have mpe0: "mpe \<noteq> 0" by (simp add: ntk_base_Inr)
  from modified_base_unit_scale [of ?N] mpe0 assms(3)
  have em: "effective_max ?N = of_int mpe" and mb: "modified_base ?N = py_value b"
    by simp_all
  from nn em have mpe: "0 \<le> mpe" by simp
  from compute_inv_freq_Inr(1) [OF f] have rd: "0 \<le> rd" by simp
  have ts: "torch_scalar b = Inr (py_value b)" by (rule torch_scalar_fits [OF assms(2)])
  have "torch_scalar (PyFloat (py_value b)) = Inr (py_value b)" by simp
  from compute_inv_freq_nonneg [of ?N, OF _ this] compute_inv_freq_nonneg [of ?B, OF _ ts] f rd
  have fB: "compute_inv_freq ?B b = Inr f" by (simp add: mb)
  from base_cache_succeeds [of ?B] rd mpe ts obtain cb
    where cb: "compute_cos_sin_cache ?B = Inr cb" by auto
  from base_cache_Inr [OF cb] fB have "cb = cos_sin_table (positions (nat mpe)) f" by auto
  also have "\<dots> = c" by (simp add: t em)
  finally show ?thesis using cb m by (simp add: RotaryEmbedding_init_Inr)
qed

theorem ntk_unit_scale_is_base_witness:
  "float_or_int64 (PyInt 10000) \<and> \<bar>2::int\<bar> < 2 ^ 53
   \<and> (\<exists>m m'. DynamicNTK_init 8 4 2 (PyInt 10000) True 1 = Inr m
      \<and> RotaryEmbedding_init 8 4 2 (PyInt 10000) True = Inr m'
      \<and> cos_sin_cache m' = cos_sin_cache m \<and> length (cos_sin_cache m) = 2)"
proof -
  let ?N = "\<lparr>head_size = 8, rotary_dim = 4, max_position_embeddings = 2, base = PyInt 10000,
              is_neox_style = True, scaling_factor = 1\<rparr>"
  have em: "effective_max ?N = 2"
    using py_int_mul_float_one [of 2] by (simp add: effective_max_def)
  obtain c where c: "DynamicNTK_compute_cos_sin_cache ?N = Inr c"
    using ntk_cache_succeeds [of ?N] em by auto
  then obtain m where m: "DynamicNTK_init 8 4 2 (PyInt 10000) True 1 = Inr m"
    and mc: "cos_sin_cache m = c"
    by (auto simp: DynamicNTK_init_Inr)
  from ntk_shape_layout [OF c] have "length c = 2" by (simp add: has_shape_def em)
  moreover have "float_or_int64 (PyInt 10000)" by simp
  moreover have "\<bar>2::int\<bar> < 2 ^ 53" by simp
  ultimately show ?thesis
    using ntk_unit_scale_is_base [OF m] m mc by auto
qed



text \<open>
  C7. Whenever the YaRN inverse frequencies are computed for an even \<open>rotary_dim\<close> and a
  scaling factor other than zero, the vector has \<open>rotary_dim / 2\<close> elements and element \<open>j\<close>
  is \<open>inv_freq_interp[j] * (1 - mask[j]) + inv_freq_extrap[j] * mask[j]\<close> with
  \<open>mask[j] = (1 - clamp((j - low) / (high - low), 0, 1)) * extrapolation_factor\<close>, the
  denominator being \<open>0.001\<close> when \<open>low = high\<close>; the denominator is never zero.
\<close>

theorem yarn_blended_inv_freq:
  assumes "YaRN_compute_inv_freq self sf = Inr v" and "even (rotary_dim self)" and "sf \<noteq> 0"
  shows "\<exists>low high. YaRN_correction_range self = Inr (low, high)
           \<and> ramp_denominator low high \<noteq> 0
           \<and> length v = nat (rotary_dim self div 2)
           \<and> (\<forall>j < nat (rotary_dim self div 2).
                 v ! j = Some (blended_inv_freq self sf low high j))"
proof -
  from yarn_inv_freq_Inr [OF assms(1)] obtain lo hi
    where nn: "0 \<le> rotary_dim self" and rg: "YaRN_correction_range self = Inr (lo, hi)"
      and ts: "torch_scalar (base self) = Inr (py_value (base self))"
    by auto
  from yarn_inv_freq_closed [OF assms(2) nn rg assms(3) ts] assms(1)
  have "v = map (\<lambda>j. Some (blended_inv_freq self sf lo hi j)) [0..<nat (rotary_dim self div 2)]"
    by simp
  then have "length v = nat (rotary_dim self div 2)"
    and "\<forall>j < nat (rotary_dim self div 2). v ! j = Some (blended_inv_freq self sf lo hi j)"
    by simp_all
  with rg ramp_denominator_nonzero [of lo hi] show ?thesis by blast
qed

theorem yarn_blended_inv_freq_witness:
  "even (2::int) \<and> (2::real) \<noteq> 0
   \<and> YaRN_compute_inv_freq
        \<lparr>head_size = 8, rotary_dim = 2, max_position_embeddings = 2048, base = PyInt 10000,
         is_neox_style = True, scaling_factor = 2, extrapolation_factor = 1, attn_factor = 1,
         beta_fast = 32, beta_slow = 1, mscale = 1\<rparr> 2 = Inr [Some 1]
   \<and> blended_inv_freq
        \<lparr>head_size = 8, rotary_dim = 2, max_position_embeddings = 2048, base = PyInt 10000,
         is_neox_style = True, scaling_factor = 2, extrapolation_factor = 1, attn_factor = 1,
         beta_fast = 32, beta_slow = 1, mscale = 1\<rparr> 2 0 1 0 = 1"
proof -
  let ?Y = "\<lparr>head_size = 8, rotary_dim = 2, max_position_embeddings = 2048, base = PyInt 10000,
         is_neox_style = True, scaling_factor = 2, extrapolation_factor = 1, attn_factor = 1,
         beta_fast = 32, beta_slow = 1, mscale = 1\<rparr>"
  have r: "YaRN_correction_range ?Y = Inr (0, 1)" by (rule yarn_example_range)
  have bl: "blended_inv_freq ?Y 2 0 1 0 = 1" by (rule yarn_example_blend)
  obtain v where v: "YaRN_compute_inv_freq ?Y 2 = Inr v"
    using yarn_example_inv_freq [of 2 1 1] by simp
  from yarn_blended_inv_freq [OF v] r
  have "length v = nat (2 div 2)" and "\<forall>j < nat (2 div 2). v ! j = Some (blended_inv_freq ?Y 2 0 1 j)"
    by auto
  then have "length v = 1" and "v ! 0 = Some 1" using bl by simp_all
  then have "v = [Some 1]" by (cases v) simp_all
  with v bl show ?thesis by simp
qed

text \<open>
  C8. In every YaRN construction \<^verbatim>\<open>mscale\<close> is
  \<open>attn_factor * (1 if scaling_factor \<le> 1 else 0.1 * ln scaling_factor + 1)\<close>, every cosine
  and every sine entry of the table is multiplied by it, and with \<open>scaling_factor = 1\<close> it
  is \<open>attn_factor\<close>.
\<close>

theorem yarn_mscale_applied:
  assumes "YaRN_init hs rd mpe b neox sf ef af bf bs = Inr m"
  shows "mscale (attrs m) = af * (if sf \<le> 1 then 1.0 else 0.1 * ln sf + 1.0)
       \<and> (\<exists>f. YaRN_compute_inv_freq (attrs m) sf = Inr f
              \<and> scaled_cos_sin_layout (cos_sin_cache m)
                   (positions (length (cos_sin_cache m))) f (mscale (attrs m)))
       \<and> (sf = 1 \<longrightarrow> mscale (attrs m) = af)"
proof -
  let ?Y = "\<lparr>head_size = hs, rotary_dim = rd, max_position_embeddings = mpe, base = b,
              is_neox_style = neox, scaling_factor = sf, extrapolation_factor = ef,
              attn_factor = af, beta_fast = bf, beta_slow = bs,
              mscale = yarn_get_mscale sf * af\<rparr>"
  from assms obtain c where c: "YaRN_compute_cos_sin_cache ?Y = Inr c"
    and m: "m = \<lparr>attrs = ?Y, cos_sin_cache = c\<rparr>"
    by (auto simp: YaRN_init_Inr)
  have ms: "mscale (attrs m) = af * (if sf \<le> 1 then 1.0 else 0.1 * ln sf + 1.0)"
    by (simp add: m yarn_get_mscale_def)
  from yarn_cache_Inr [OF c] obtain f where f: "YaRN_compute_inv_freq ?Y sf = Inr f"
    and t: "c = scaled_cos_sin_table (positions (nat \<lceil>effective_max ?Y\<rceil>)) f
                  (yarn_get_mscale sf * af)"
    by auto
  from t have l: "scaled_cos_sin_layout c (positions (nat \<lceil>effective_max ?Y\<rceil>)) f
                    (yarn_get_mscale sf * af)"
    by (simp add: scaled_table_layout)
  then have "length c = nat \<lceil>effective_max ?Y\<rceil>"
    by (simp add: scaled_cos_sin_layout_def positions_simps)
  with l have "scaled_cos_sin_layout (cos_sin_cache m) (positions (length (cos_sin_cache m))) f
          (mscale (attrs m))"
    by (simp add: m)
  with f have ex: "\<exists>f. YaRN_compute_inv_freq (attrs m) sf = Inr f
              \<and> scaled_cos_sin_layout (cos_sin_cache m)
                   (positions (length (cos_sin_cache m))) f (mscale (attrs m))"
    by (auto simp: m)
  from ms have "sf = 1 \<longrightarrow> mscale (attrs m) = af" by simp
  with ms ex show ?thesis by blast
qed

theorem yarn_mscale_applied_witness:
  "(\<exists>m. YaRN_init 8 2 2048 (PyInt 10000) True 2 1 (3 / 2) 32 1 = Inr m
        \<and> mscale (attrs m) = 3 / 2 * (0.1 * ln 2 + 1.0)
        \<and> cos_sin_cache m ! 0 ! 0 = Some (3 / 2 * (0.1 * ln 2 + 1.0)))
   \<and> (\<exists>m. YaRN_init 8 2 2048 (PyInt 10000) True 1 1 (3 / 2) 32 1 = Inr m
        \<and> mscale (attrs m) = 3 / 2)"
proof -
  let ?Y = "\<lambda>sf. \<lparr>head_size = 8, rotary_dim = 2, max_position_embeddings = 2048,
              base = PyInt 10000,
              is_neox_style = True, scaling_factor = sf, extrapolation_factor = 1,
              attn_factor = 3 / 2, beta_fast = 32, beta_slow = 1,
              mscale = yarn_get_mscale sf * (3 / 2)\<rparr>"
  have e2: "effective_max (?Y 2) = 4096" by (rule yarn_example_effective_max)
  have e1: "effective_max (?Y 1) = 2048"
    using py_int_mul_float_one [of 2048] by (simp add: effective_max_def)
  obtain c2 where c2: "YaRN_compute_cos_sin_cache (?Y 2) = Inr c2"
    using yarn_cache_succeeds [of "?Y 2" 0 1] yarn_example_range e2 by auto
  define m2 where "m2 = \<lparr>attrs = ?Y 2, cos_sin_cache = c2\<rparr>"
  have a2: "attrs m2 = ?Y 2" and cc2: "cos_sin_cache m2 = c2" by (simp_all add: m2_def)
  have m2: "YaRN_init 8 2 2048 (PyInt 10000) True 2 1 (3 / 2) 32 1 = Inr m2"
    using c2 by (simp add: YaRN_init_Inr m2_def)
  obtain c1 where "YaRN_compute_cos_sin_cache (?Y 1) = Inr c1"
    using yarn_cache_succeeds [of "?Y 1" 0 1] yarn_example_range e1 by auto
  then obtain m1 where m1: "YaRN_init 8 2 2048 (PyInt 10000) True 1 1 (3 / 2) 32 1 = Inr m1"
    by (auto simp: YaRN_init_Inr)
  from yarn_shape_layout [OF c2] have len: "length c2 = 4096"
    by (simp add: has_shape_def yarn_example_effective_max)
  note inst = yarn_mscale_applied [OF m2]
  from inst have "mscale (attrs m2) = 3 / 2 * (if (2::real) \<le> 1 then 1.0 else 0.1 * ln 2 + 1.0)"
    by (rule conjunct1)
  then have ms: "mscale (attrs m2) = 3 / 2 * (0.1 * ln 2 + 1.0)" by simp
  from inst have "\<exists>f. YaRN_compute_inv_freq (attrs m2) 2 = Inr f
      \<and> scaled_cos_sin_layout (cos_sin_cache m2) (positions (length (cos_sin_cache m2))) f
           (mscale (attrs m2))"
    by (rule conjunct1 [OF conjunct2])
  then obtain f where f: "YaRN_compute_inv_freq (attrs m2) 2 = Inr f"
      and l: "scaled_cos_sin_layout (cos_sin_cache m2) (positions (length (cos_sin_cache m2))) f
                (mscale (attrs m2))"
    by blast
  from f have "f = [Some 1]" by (simp add: a2 yarn_example_inv_freq)
  with l have "cos_sin_cache m2 ! 0 ! 0
      = fl_mul (fl_cos (fl_mul (positions 4096 ! 0) (Some 1))) (Some (mscale (attrs m2)))"
    by (simp add: scaled_cos_sin_layout_def cc2 len positions_simps)
  then have "cos_sin_cache m2 ! 0 ! 0 = Some (3 / 2 * (0.1 * ln 2 + 1.0))"
    by (simp add: positions_simps fl_mul_def fl_cos_def ms)
  moreover from yarn_mscale_applied [OF m1] have "mscale (attrs m1) = 3 / 2" by simp
  ultimately show ?thesis using m1 m2 ms by blast
qed

text \<open>
  C9. As the claim states it, an odd \<open>rotary_dim\<close> makes the construction raise. The
  constructor validates nothing: with \<open>rotary_dim = 3\<close> and one position it returns a
  module whose table has the row \<open>[1, 1, 0, 0]\<close>.
\<close>

theorem odd_rotary_dim_counterexample:
  "odd (3::int) \<and>
   RotaryEmbedding_init 8 3 1 (PyInt 10000) True
     = Inr \<lparr>attrs = \<lparr>head_size = 8, rotary_dim = 3, max_position_embeddings = 1,
                      base = PyInt 10000, is_neox_style = True\<rparr>,
            cos_sin_cache = [[Some 1, Some 1, Some 0, Some 0]]\<rparr>"
proof -
  let ?B = "\<lparr>head_size = 8, rotary_dim = 3, max_position_embeddings = 1,
              base = PyInt 10000, is_neox_style = True\<rparr>"
  have c: "\<lceil>(3::real) / 2\<rceil> = 2" by (simp add: ceiling_eq_iff)
  have u: "[0..<2] = [0, Suc 0]" by (simp add: upt_rec)
  have ts: "torch_scalar (PyInt 10000) = Inr 10000" by simp
  show ?thesis
    by (simp add: RotaryEmbedding_init_def compute_cos_sin_cache_def
        compute_inv_freq_nonneg [of ?B, OF _ ts]
        arange_step1 positions_def and_then_simps Let_def c u torch_einsum_outer_def
        tensor2_cos_def tensor2_sin_def torch_cat_last_def fl_div_def fl_pow_def fl_mul_def
        fl_cos_def fl_sin_def)
qed

text \<open>
  C9, amended. The constructor of the base variant does not check the parity of
  \<open>rotary_dim\<close>: every table it builds for an odd \<open>rotary_dim\<close> has
  \<open>max_position_embeddings\<close> rows and \<open>rotary_dim + 1\<close> columns, and it raises no error
  for an odd \<open>rotary_dim > 0\<close> and a \<open>max_position_embeddings \<ge> 0\<close> that fit a signed 64-bit
  integer and a base that is a \<^verbatim>\<open>float\<close> or an \<^verbatim>\<open>int\<close> fitting a signed 64-bit integer.
\<close>

theorem odd_rotary_dim_not_rejected:
  assumes "odd rd"
  shows "(\<forall>m. RotaryEmbedding_init hs rd mpe b neox = Inr m
            \<longrightarrow> has_shape (cos_sin_cache m) (nat mpe) (nat (rd + 1)))
       \<and> (0 < rd \<and> rd < 2 ^ 63 \<and> 0 \<le> mpe \<and> mpe < 2 ^ 63 \<and> float_or_int64 b
            \<longrightarrow> (\<exists>m. RotaryEmbedding_init hs rd mpe b neox = Inr m))"
proof -
  let ?self = "\<lparr>head_size = hs, rotary_dim = rd, max_position_embeddings = mpe, base = b,
                 is_neox_style = neox\<rparr>"
  have shape: "has_shape (cos_sin_cache m) (nat mpe) (nat (rd + 1))"
    if "RotaryEmbedding_init hs rd mpe b neox = Inr m" for m
  proof -
    from that obtain c where c: "compute_cos_sin_cache ?self = Inr c"
      and m: "cos_sin_cache m = c"
      by (auto simp: RotaryEmbedding_init_Inr)
    from base_cache_Inr [OF c] obtain f where f: "compute_inv_freq ?self b = Inr f"
      and t: "c = cos_sin_table (positions (nat mpe)) f" by auto
    from compute_inv_freq_Inr(1,3) [OF f] assms
    have "2 * length f = nat (rd + 1)"
      by (auto simp: ceiling_half_odd elim!: oddE)
    with layout_shape [OF table_layout, of "positions (nat mpe)" f] t m
    show ?thesis by (simp add: positions_simps)
  qed
  have total: "\<exists>m. RotaryEmbedding_init hs rd mpe b neox = Inr m"
    if "0 < rd" and "0 \<le> mpe" and "float_or_int64 b"
  proof -
    from base_cache_succeeds [of ?self "py_value b"] that torch_scalar_fits [OF that(3)]
    obtain c where "compute_cos_sin_cache ?self = Inr c" by auto
    then show ?thesis by (simp add: RotaryEmbedding_init_Inr)
  qed
  from shape total show ?thesis by blast
qed

theorem odd_rotary_dim_not_rejected_witness:
  "odd (3::int) \<and> (0::int) < 3 \<and> (3::int) < 2 ^ 63 \<and> (0::int) \<le> 1 \<and> (1::int) < 2 ^ 63
   \<and> float_or_int64 (PyInt 10000)
   \<and> (\<exists>m. RotaryEmbedding_init 8 3 1 (PyInt 10000) True = Inr m
          \<and> has_shape (cos_sin_cache m) 1 4)"
proof -
  have o: "odd (3::int)" by simp
  from odd_rotary_dim_not_rejected [OF o, of 8 1 "PyInt 10000" True]
  obtain m where m: "RotaryEmbedding_init 8 3 1 (PyInt 10000) True = Inr m" by auto
  with odd_rotary_dim_not_rejected [OF o, of 8 1 "PyInt 10000" True]
  have "has_shape (cos_sin_cache m) 1 4" by simp
  with m show ?thesis by auto
qed

text \<open>
  C10. Every pair \<open>(low, high)\<close> the YaRN correction-range function returns satisfies
  \<open>0 \<le> low\<close> and \<open>high \<le> dim - 1\<close>. It does not guarantee \<open>low \<le> high\<close>: with the positive
  arguments \<open>low_rot = high_rot = 1\<close>, \<open>dim = 1\<close>, \<open>base = 2\<close> and 2048 positions it returns a
  pair with \<open>high < low\<close>.
\<close>

theorem yarn_range_clamped:
  "(yarn_find_correction_range low_rot high_rot d b mpe = Inr (low, high)
      \<longrightarrow> 0 \<le> low \<and> high \<le> d - 1)
   \<and> (\<exists>l h. yarn_find_correction_range 1 1 1 2 2048 = Inr (l, h) \<and> h < l)"
  using yarn_range_inverted_example by (auto simp: yarn_range_Inr)

theorem yarn_range_clamped_witness:
  "yarn_find_correction_range 32 1 2 10000 2048 = Inr (0, 1) \<and> (0::int) \<le> 0 \<and> (1::int) \<le> 2 - 1"
  using yarn_range_clamped [of 32 1 2 10000 2048 0 1] yarn_range_example by simp

end
